theory Spec2Isabelle
  imports Complex_Main
begin

section \<open>richfetch: a shallow embedding of richfetch.py and fetch.py\<close>

text \<open>
  The repository holds two programs: \<^verbatim>\<open>richfetch.py\<close> (the rich variant, with icons,
  colours, two command-line flags and a battery entry) and \<^verbatim>\<open>fetch.py\<close> (the minimal
  variant). Both query the host, build a Python \<^verbatim>\<open>dict\<close> from decorated label to value
  and print one line per item.

  Conventions of the model:
  \<^item> a Python \<^verbatim>\<open>str\<close> is a \<^typ>\<open>string\<close> holding the UTF-8 bytes of the text (the
    encoding is injective, so equality of keys is equality of byte lists);
  \<^item> a Python \<^verbatim>\<open>float\<close> that holds a finite measurement is a \<^typ>\<open>real\<close>: comparisons
    with the integer literals of the source are exact on finite floats;
  \<^item> a value that may be \<^verbatim>\<open>None\<close> is an \<^typ>\<open>'a option\<close>;
  \<^item> a raised exception is the left summand of a sum;
  \<^item> what the host answers to each library call is a field of the record \<open>host\<close>.
\<close>

subsection \<open>Colours and the two classifiers\<close>

text \<open>
  The colour names that the source passes to \<^verbatim>\<open>termcolor.colored\<close> as string literals
  (\<^verbatim>\<open>"red"\<close>, \<^verbatim>\<open>"green"\<close>, ...).
\<close>

datatype colour = Red | Green | Yellow | Blue | Magenta | Cyan | White

text \<open>\<^verbatim>\<open>color_cpu_temp\<close>, richfetch.py lines 112-132.\<close>

definition color_cpu_temp :: "real \<Rightarrow> colour" where
  "color_cpu_temp temp =
     (if temp < 60 then Green
      else if temp < 70 then Yellow
      else Red)"

text \<open>\<^verbatim>\<open>color_usage_percent\<close>, richfetch.py lines 135-142.\<close>

definition color_usage_percent :: "real \<Rightarrow> colour" where
  "color_usage_percent percent =
     (if percent < 60 then Green
      else if percent < 80 then Yellow
      else Red)"

subsection \<open>Rendering integers\<close>

text \<open>Python's \<^verbatim>\<open>str\<close> of an \<^verbatim>\<open>int\<close>: decimal digits, a minus sign when negative.\<close>

definition digit_char :: "nat \<Rightarrow> char" where
  "digit_char d = ''0123456789'' ! d"

fun str_nat :: "nat \<Rightarrow> string" where
  "str_nat n = (if n < 10 then [digit_char n] else str_nat (n div 10) @ [digit_char (n mod 10)])"

declare str_nat.simps [simp del]

definition str_int :: "int \<Rightarrow> string" where
  "str_int i = (if i < 0 then CHR ''-'' # str_nat (nat (- i)) else str_nat (nat i))"

text \<open>A reader of decimal numerals, used to check that \<open>str_int\<close> writes the number it is given.\<close>

definition digit_val :: "char \<Rightarrow> nat" where
  "digit_val c = of_char c - 48"

definition read_nat :: "string \<Rightarrow> nat" where
  "read_nat s = foldl (\<lambda>acc c. 10 * acc + digit_val c) 0 s"

definition read_int :: "string \<Rightarrow> int" where
  "read_int s = (case s of [] \<Rightarrow> 0
                 | c # cs \<Rightarrow> if c = CHR ''-'' then - int (read_nat cs) else int (read_nat s))"

subsection \<open>Uptime\<close>

text \<open>
  Both variants compute the uptime with the same statements (richfetch.py lines 247-254,
  fetch.py lines 42-50):
  \<^verbatim>\<open>
    boot_time = current_time - datetime.fromtimestamp(uptime_seconds)
    uptime_hours = int(boot_time.total_seconds() // 3600)
    uptime_minutes = int((boot_time.total_seconds() % 3600) // 60)
    uptime_str = f"{uptime_hours} hrs, {uptime_minutes} mins"
  \<close>
  A \<^verbatim>\<open>datetime\<close> is a count of microseconds, so the two instants are integers (in
  microseconds) and the \<^verbatim>\<open>timedelta\<close> is their difference.

  \<^verbatim>\<open>total_seconds\<close> divides the count by \<open>10\<^sup>6\<close> and returns a float: the double nearest
  to the quotient, ties to the even mantissa. Doubles are the reals \<open>M / 2\<^sup>k\<close> with a
  mantissa \<open>M \<le> 2\<^sup>5\<^sup>3\<close>: \<open>double_shift\<close> finds the \<open>k\<close> that brings the quotient
  into \<open>[2\<^sup>5\<^sup>2, 2\<^sup>5\<^sup>3)\<close>, \<open>round_half_even\<close> rounds it there. (A difference of two
  datetimes is below \<open>2\<^sup>3\<^sup>9\<close> seconds, so \<open>k\<close> is never negative.)

  \<^verbatim>\<open>//\<close> and \<^verbatim>\<open>%\<close> on floats are floor division and its remainder. On these doubles
  \<^verbatim>\<open>//\<close> by 3600 and by 60 is exact; \<^verbatim>\<open>%\<close> is exact for a dividend that is not
  negative and within \<open>2\<^sup>-\<^sup>4\<^sup>1\<close> of the remainder otherwise, which is too little to move
  it across a multiple of 60, so the remainder is taken as it is. \<^verbatim>\<open>int\<close> truncates
  towards zero.
\<close>

definition round_half_even :: "nat \<Rightarrow> nat \<Rightarrow> nat" where
  "round_half_even a b =
     (let q = a div b; r = a mod b
      in if 2 * r < b then q else if b < 2 * r then q + 1 else if even q then q else q + 1)"

function double_shift :: "nat \<Rightarrow> nat" where
  "double_shift n =
     (if n = 0 \<or> 4503599627370496000000 \<le> n then 0 else Suc (double_shift (2 * n)))"
  by pat_completeness auto
termination
  by (relation "measure (\<lambda>n. 4503599627370496000000 - n)") auto

declare double_shift.simps [simp del]

definition total_seconds :: "int \<Rightarrow> real" where
  "total_seconds micros =
     (let n = nat \<bar>micros\<bar>;
          k = double_shift n;
          v = real (round_half_even (n * 2 ^ k) 1000000) / 2 ^ k
      in if micros < 0 then - v else v)"

definition py_floordiv :: "real \<Rightarrow> real \<Rightarrow> real" where
  "py_floordiv x y = real_of_int \<lfloor>x / y\<rfloor>"

definition py_mod :: "real \<Rightarrow> real \<Rightarrow> real" where
  "py_mod x y = x - y * real_of_int \<lfloor>x / y\<rfloor>"

definition py_int :: "real \<Rightarrow> int" where
  "py_int x = (if 0 \<le> x then \<lfloor>x\<rfloor> else \<lceil>x\<rceil>)"

definition uptime_hours :: "int \<Rightarrow> int \<Rightarrow> int" where
  "uptime_hours current_time boot =
     py_int (py_floordiv (total_seconds (current_time - boot)) 3600)"

definition uptime_minutes :: "int \<Rightarrow> int \<Rightarrow> int" where
  "uptime_minutes current_time boot =
     py_int (py_floordiv (py_mod (total_seconds (current_time - boot)) 3600) 60)"

definition uptime_str :: "int \<Rightarrow> int \<Rightarrow> string" where
  "uptime_str current_time boot =
     str_int (uptime_hours current_time boot) @ '' hrs, '' @
     str_int (uptime_minutes current_time boot) @ '' mins''"

subsection \<open>Python dictionaries\<close>

text \<open>
  A \<^verbatim>\<open>dict\<close> keeps its items in insertion order, and storing under a key that is
  already there replaces the value and leaves the item where it is. This is what a dict
  display with a repeated key and \<^verbatim>\<open>dict.update\<close> do, item by item.
\<close>

type_synonym ('k, 'v) dict = "('k \<times> 'v) list"

fun dict_set :: "('k, 'v) dict \<Rightarrow> 'k \<Rightarrow> 'v \<Rightarrow> ('k, 'v) dict" where
  "dict_set [] k v = [(k, v)]"
| "dict_set ((k', v') # d) k v =
     (if k' = k then (k', v) # d else (k', v') # dict_set d k v)"

definition dict_update :: "('k, 'v) dict \<Rightarrow> ('k \<times> 'v) list \<Rightarrow> ('k, 'v) dict" where
  "dict_update d items = foldl (\<lambda>acc (k, v). dict_set acc k v) d items"

definition dict_literal :: "('k \<times> 'v) list \<Rightarrow> ('k, 'v) dict" where
  "dict_literal items = dict_update [] items"

definition keys :: "('k, 'v) dict \<Rightarrow> 'k list" where
  "keys d = map fst d"

subsection \<open>termcolor\<close>

text \<open>
  \<^verbatim>\<open>termcolor.colored(text, color)\<close> wraps the text in the ANSI escape sequence of the
  colour and the reset sequence; when colouring is off (no terminal, \<^verbatim>\<open>NO_COLOR\<close> or
  \<^verbatim>\<open>ANSI_COLORS_DISABLED\<close> set) it returns the text unchanged. Whether colouring is on
  is a property of the host (\<open>ansi\<close>).
\<close>

definition colour_code :: "colour \<Rightarrow> string" where
  "colour_code c = (case c of Red \<Rightarrow> ''31'' | Green \<Rightarrow> ''32'' | Yellow \<Rightarrow> ''33''
     | Blue \<Rightarrow> ''34'' | Magenta \<Rightarrow> ''35'' | Cyan \<Rightarrow> ''36'' | White \<Rightarrow> ''97'')"

definition colored :: "bool \<Rightarrow> string \<Rightarrow> colour \<Rightarrow> string" where
  "colored ansi text c =
     (if ansi then [CHR 0x1B, CHR ''[''] @ colour_code c @ ''m'' @ text @ [CHR 0x1B, CHR ''['', CHR ''0'', CHR ''m'']
      else text)"

subsection \<open>Icons\<close>

text \<open>The glyphs of the labels, as the UTF-8 bytes of the code points of the source.\<close>

abbreviation icon_user :: string where \<comment> \<open>U+F415\<close>
  "icon_user \<equiv> [CHR 0xEF, CHR 0x90, CHR 0x95]"
abbreviation icon_cpu :: string where \<comment> \<open>U+EC19\<close>
  "icon_cpu \<equiv> [CHR 0xEE, CHR 0xB0, CHR 0x99]"
abbreviation icon_temp :: string where \<comment> \<open>U+F2C9\<close>
  "icon_temp \<equiv> [CHR 0xEF, CHR 0x8B, CHR 0x89]"
abbreviation icon_wm :: string where \<comment> \<open>U+F0A07\<close>
  "icon_wm \<equiv> [CHR 0xF3, CHR 0xB0, CHR 0xA8, CHR 0x87]"
abbreviation icon_uptime :: string where \<comment> \<open>U+F252\<close>
  "icon_uptime \<equiv> [CHR 0xEF, CHR 0x89, CHR 0x92]"
abbreviation icon_ram :: string where \<comment> \<open>U+E266\<close>
  "icon_ram \<equiv> [CHR 0xEE, CHR 0x89, CHR 0xA6]"
abbreviation icon_disk :: string where \<comment> \<open>U+F0C7\<close>
  "icon_disk \<equiv> [CHR 0xEF, CHR 0x83, CHR 0x87]"
abbreviation icon_private_ip :: string where \<comment> \<open>U+F0A69\<close>
  "icon_private_ip \<equiv> [CHR 0xF3, CHR 0xB0, CHR 0xA9, CHR 0xA9]"
abbreviation icon_public_ip :: string where \<comment> \<open>U+F0469\<close>
  "icon_public_ip \<equiv> [CHR 0xF3, CHR 0xB0, CHR 0x91, CHR 0xA9]"
abbreviation icon_plugged :: string where \<comment> \<open>U+F0084\<close>
  "icon_plugged \<equiv> [CHR 0xF3, CHR 0xB0, CHR 0x82, CHR 0x84]"
abbreviation icon_battery :: string where \<comment> \<open>U+F12A3\<close>
  "icon_battery \<equiv> [CHR 0xF3, CHR 0xB1, CHR 0x8A, CHR 0xA3]"
abbreviation icon_degree :: string where \<comment> \<open>U+F0504\<close>
  "icon_degree \<equiv> [CHR 0xF3, CHR 0xB0, CHR 0x94, CHR 0x84]"
abbreviation icon_fallback :: string where \<comment> \<open>U+E712\<close>
  "icon_fallback \<equiv> [CHR 0xEE, CHR 0x9C, CHR 0x92]"

text \<open>\<^verbatim>\<open>get_os_logo\<close>, richfetch.py lines 145-192.\<close>

text \<open>The items of the dict display of lines 147-189, as they are written.\<close>

definition logo_table :: "bool \<Rightarrow> (string \<times> string) list" where
  "logo_table ansi = [
     (''Alpine Linux'', colored ansi [CHR 0xEF, CHR 0x8C, CHR 0x80] Blue),
     (''Arch Linux'', colored ansi [CHR 0xF3, CHR 0xB0, CHR 0xA3, CHR 0x87] Blue),
     (''Artix Linux'', colored ansi [CHR 0xEF, CHR 0x8C, CHR 0x9F] Blue),
     (''CentOS Stream 9'', colored ansi [CHR 0xEE, CHR 0xBC, CHR 0xBD] Yellow),
     (''Debian GNU/Linux 11 Bullseye'', colored ansi [CHR 0xEF, CHR 0x8C, CHR 0x86] Red),
     (''Deepin'', colored ansi [CHR 0xEF, CHR 0x8C, CHR 0xA1] Blue),
     (''Elementary OS 7: Loki'', colored ansi [CHR 0xEF, CHR 0x8C, CHR 0x89] Blue),
     (''EndeavourOS'', colored ansi [CHR 0xEF, CHR 0x8C, CHR 0xA2] Magenta),
     (''Fedora Linux'', colored ansi [CHR 0xEF, CHR 0x8C, CHR 0x8A] Blue),
     (''FreeBSD'', colored ansi [CHR 0xEF, CHR 0x8A, CHR 0x8F] Red),
     (''Parabola GNU/Linux-libre'', colored ansi [CHR 0xEF, CHR 0x8D, CHR 0x80] Blue),
     (''Garuda Linux'', colored ansi [CHR 0xEF, CHR 0x8C, CHR 0xB7] Yellow),
     (''Gentoo Linux'', colored ansi [CHR 0xF3, CHR 0xB0, CHR 0xA3, CHR 0xA8] White),
     (''Hyperbola GNU/Linux-libre'', colored ansi [CHR 0xEF, CHR 0x8C, CHR 0xBA] Blue),
     (''Kali Linux'', colored ansi [CHR 0xEF, CHR 0x8C, CHR 0xA7] Blue),
     (''KDE Neon'', colored ansi [CHR 0xEF, CHR 0x8C, CHR 0xB1] Blue),
     (''Kubuntu'', colored ansi [CHR 0xEF, CHR 0x8C, CHR 0xB3] Blue),
     (''Linux Mint 21 Cinnamon'', colored ansi [CHR 0xF3, CHR 0xB0, CHR 0xA3, CHR 0xAD] Green),
     (''Lubuntu'', colored ansi [CHR 0xEF, CHR 0x8D, CHR 0xA3] Blue),
     (''macOS'', colored ansi [CHR 0xEE, CHR 0x9C, CHR 0x91] White),
     (''Mageia'', colored ansi [CHR 0xEF, CHR 0x8C, CHR 0x90] Blue),
     (''Manjaro Linux'', colored ansi [CHR 0xEF, CHR 0x8C, CHR 0x92] Green),
     (''MX Linux'', colored ansi [CHR 0xEF, CHR 0x8C, CHR 0xBF] White),
     (''NixOS'', colored ansi [CHR 0xEF, CHR 0x8C, CHR 0x93] Blue),
     (''openSUSE Leap 15.4'', colored ansi [CHR 0xEF, CHR 0x8C, CHR 0x94] Green),
     (''openSUSE Tumbleweed'', colored ansi [CHR 0xEF, CHR 0x8C, CHR 0x94] Green),
     (''Parrot Security OS'', colored ansi [CHR 0xEF, CHR 0x8C, CHR 0xA9] Green),
     (''Pop!_OS 22.04'', colored ansi [CHR 0xEF, CHR 0x8C, CHR 0xAA] Blue),
     (''PostmarketOS'', colored ansi [CHR 0xEF, CHR 0x8D, CHR 0xB4] Green),
     (''Puppy Linux'', colored ansi [CHR 0xEF, CHR 0x8D, CHR 0x81] White),
     (''Qubes OS'', colored ansi [CHR 0xEF, CHR 0x8D, CHR 0x82] Blue),
     (''Raspberry Pi OS'', colored ansi [CHR 0xEE, CHR 0xBD, CHR 0x9C] Red),
     (''Red Hat Enterprise Linux'', colored ansi ''Red Hat Enterprise Linux'' Red),
     (''Slackware Linux'', colored ansi [CHR 0xEF, CHR 0x8C, CHR 0x98] Blue),
     (''Solus'', colored ansi [CHR 0xEF, CHR 0x8C, CHR 0xAD] Blue),
     (''Tails'', colored ansi [CHR 0xEF, CHR 0x8D, CHR 0x83] Magenta),
     (''Ubuntu 22.04 LTS'', colored ansi [CHR 0xEE, CHR 0x9C, CHR 0xBA] Yellow),
     (''Ubuntu Budgie'', colored ansi [CHR 0xEF, CHR 0x8C, CHR 0xA0] Magenta),
     (''Vanilla OS'', colored ansi [CHR 0xEF, CHR 0x8D, CHR 0xA6] Yellow),
     (''Void Linux'', colored ansi [CHR 0xEF, CHR 0x8C, CHR 0xAE] Green),
     (''Windows'', colored ansi [CHR 0xEE, CHR 0x9C, CHR 0x8F] Blue),
     (''Xubuntu'', colored ansi [CHR 0xEF, CHR 0x8D, CHR 0xA8] Blue),
     (''Zorin OS'', colored ansi [CHR 0xEF, CHR 0x8C, CHR 0xAF] Blue)]"

definition logo_dict :: "bool \<Rightarrow> (string, string) dict" where
  "logo_dict ansi = dict_literal (logo_table ansi)"

definition get_os_logo :: "bool \<Rightarrow> string \<Rightarrow> string" where
  "get_os_logo ansi os_name =
     (case map_of (logo_dict ansi) os_name of
        Some logo \<Rightarrow> logo
      | None \<Rightarrow> colored ansi icon_fallback Yellow)"

text \<open>\<^verbatim>\<open>dynamic_color_line\<close>, richfetch.py lines 203-211.\<close>

definition colors :: "colour list" where
  "colors = [Red, Yellow, Green, Blue, Cyan, Magenta]"

definition symbols :: "string list" where
  "symbols = [[CHR 0xF3, CHR 0xB1, CHR 0x9A, CHR 0x9D], [CHR 0xF3, CHR 0xB1, CHR 0x9A, CHR 0x9F],
              [CHR 0xF3, CHR 0xB1, CHR 0x9A, CHR 0xA3], [CHR 0xF3, CHR 0xB0, CHR 0x9A, CHR 0xA9],
              [CHR 0xF3, CHR 0xB1, CHR 0x9C, CHR 0x99], [CHR 0xF3, CHR 0xB1, CHR 0x9A, CHR 0xA5]]"

definition dynamic_color_line :: "bool \<Rightarrow> string" where
  "dynamic_color_line ansi =
     foldl (\<lambda>colored_line i. colored_line @ colored ansi (symbols ! i) (colors ! i) @ '' '')
       [] [0 ..< length colors]"

subsection \<open>Exceptions, effects and the host\<close>

datatype exn =
    KeyError string
  | IndexError string
  | TypeError string
  | AttributeError string
  | OSError string
  | RequestException string
  | ValueError string

text \<open>\<^verbatim>\<open>str(e)\<close>: a \<^verbatim>\<open>KeyError\<close> shows the \<^verbatim>\<open>repr\<close> of its key, the others their message.\<close>

fun exn_str :: "exn \<Rightarrow> string" where
  "exn_str (KeyError k) = [CHR 0x27] @ k @ [CHR 0x27]"
| "exn_str (IndexError m) = m"
| "exn_str (TypeError m) = m"
| "exn_str (AttributeError m) = m"
| "exn_str (OSError m) = m"
| "exn_str (RequestException m) = m"
| "exn_str (ValueError m) = m"

text \<open>
  What a run does to the outside world, in order: the socket calls, the HTTP request and
  the lines written to standard output.
\<close>

datatype event =
    Socket_opened         \<comment> \<open>\<^verbatim>\<open>socket.socket(...)\<close> returned a socket\<close>
  | Socket_refused        \<comment> \<open>\<^verbatim>\<open>socket.socket(...)\<close> was called and raised\<close>
  | Socket_connect        \<comment> \<open>\<^verbatim>\<open>s.connect(("8.8.8.8", 80))\<close> was called\<close>
  | Socket_getsockname    \<comment> \<open>\<^verbatim>\<open>s.getsockname()\<close> was called\<close>
  | Socket_closed         \<comment> \<open>\<^verbatim>\<open>s.close()\<close> was called\<close>
  | Http_get string       \<comment> \<open>\<^verbatim>\<open>requests.get(url)\<close> was called\<close>
  | Printed string        \<comment> \<open>\<^verbatim>\<open>print(line)\<close>\<close>

text \<open>A computation: the events it caused, and the exception it raised or its value.\<close>

type_synonym 'a comp = "event list \<times> (exn + 'a)"

definition ret :: "'a \<Rightarrow> 'a comp" where
  "ret x = ([], Inr x)"

definition raise :: "exn \<Rightarrow> 'a comp" where
  "raise e = ([], Inl e)"

definition emit :: "event \<Rightarrow> unit comp" where
  "emit ev = ([ev], Inr ())"

definition lift :: "exn + 'a \<Rightarrow> 'a comp" where
  "lift r = ([], r)"

definition bind :: "'a comp \<Rightarrow> ('a \<Rightarrow> 'b comp) \<Rightarrow> 'b comp" where
  "bind m f =
     (case m of
        (es, Inl e) \<Rightarrow> (es, Inl e)
      | (es, Inr x) \<Rightarrow> (case f x of (es', r) \<Rightarrow> (es @ es', r)))"

definition try_except :: "'a comp \<Rightarrow> (exn \<Rightarrow> 'a comp) \<Rightarrow> 'a comp" where
  "try_except m handler =
     (case m of
        (es, Inl e) \<Rightarrow> (case handler e of (es', r) \<Rightarrow> (es @ es', r))
      | (es, Inr x) \<Rightarrow> (es, Inr x))"

text \<open>The answer of the IP echo service: the body as \<^verbatim>\<open>response.json()\<close> sees it.\<close>

datatype body =
    Not_json exn                              \<comment> \<open>\<^verbatim>\<open>response.json()\<close> raises\<close>
  | Non_object string                         \<comment> \<open>JSON, but not an object: indexing by a string raises \<^verbatim>\<open>TypeError\<close> with this message\<close>
  | Object "(string \<times> string option) list"   \<comment> \<open>an object whose fields are strings or \<^verbatim>\<open>null\<close>\<close>

datatype http_outcome =
    Transport exn                  \<comment> \<open>\<^verbatim>\<open>requests.get\<close> raises\<close>
  | Response nat string body       \<comment> \<open>status code, reason phrase, body\<close>

record shwtemp =
  label :: string
  current :: real

record sbattery =
  percent :: real
  power_plugged :: "bool option"

record usage =
  total :: nat
  used :: nat
  usage_percent :: real

record args =
  show_public_ip :: bool
  show_private_ip :: bool

text \<open>
  The host: what each library call of the source answers. Python's rendering of a float
  (\<^verbatim>\<open>f"{x}"\<close> and \<^verbatim>\<open>f"{x:.2f}"\<close>) is not modelled; the two renderers are fields too.
\<close>

record host =
  ansi :: bool
  float_str :: "real \<Rightarrow> string"
  float_2f :: "real \<Rightarrow> string"
  system :: string
  mac_ver :: string
  win32_ver :: string   \<comment> \<open>the \<^verbatim>\<open>str\<close> of the tuple \<^verbatim>\<open>platform.win32_ver()\<close>\<close>
  freedesktop_os_release :: "exn + (string \<times> string) list"
  getlogin :: "exn + string"
  nodename :: "exn + string"
  boot_time :: int
  now :: int
  environ :: "(string \<times> string) list"
  cpu_info :: "(string \<times> string) list"
  cpu_percent :: real
  sensors_temperatures :: "(string \<times> shwtemp list) list option"
  sensors_battery :: "sbattery option"
  socket_new :: "exn option"
  socket_connect :: "exn option"
  socket_getsockname :: "exn + string"
  http :: http_outcome
  disk_usage :: usage
  virtual_memory :: usage

text \<open>\<^verbatim>\<open>d[k]\<close> on a dict: the value, or \<^verbatim>\<open>KeyError\<close>.\<close>

definition getitem :: "(string \<times> 'v) list \<Rightarrow> string \<Rightarrow> exn + 'v" where
  "getitem d k = (case map_of d k of None \<Rightarrow> Inl (KeyError k) | Some v \<Rightarrow> Inr v)"

subsection \<open>The collectors of richfetch.py\<close>

definition ipify_url :: string where
  "ipify_url = ''https://api.ipify.org?format=json''"

text \<open>
  \<^verbatim>\<open>response.raise_for_status()\<close> raises an \<^verbatim>\<open>HTTPError\<close> (a \<^verbatim>\<open>RequestException\<close>) for
  the status codes 400 to 599 and returns for every other code.
\<close>

definition raise_for_status :: "nat \<Rightarrow> string \<Rightarrow> unit comp" where
  "raise_for_status status reason =
     (if 400 \<le> status \<and> status < 500
        then raise (RequestException (str_nat status @ '' Client Error: '' @ reason @ '' for url: '' @ ipify_url))
      else if 500 \<le> status \<and> status < 600
        then raise (RequestException (str_nat status @ '' Server Error: '' @ reason @ '' for url: '' @ ipify_url))
      else ret ())"

text \<open>\<^verbatim>\<open>response.json()["ip"]\<close>.\<close>

definition json_ip :: "body \<Rightarrow> string option comp" where
  "json_ip b =
     (case b of
        Not_json e \<Rightarrow> raise e
      | Non_object msg \<Rightarrow> raise (TypeError msg)
      | Object obj \<Rightarrow> lift (getitem obj ''ip''))"

text \<open>The \<^verbatim>\<open>try\<close> block shared by \<^verbatim>\<open>get_public_ip\<close> and \<^verbatim>\<open>get_public_address\<close>.\<close>

definition request_ip :: "host \<Rightarrow> string option comp" where
  "request_ip h =
     bind (emit (Http_get ipify_url)) (\<lambda>_.
       case http h of
         Transport e \<Rightarrow> raise e
       | Response status reason b \<Rightarrow>
           bind (raise_for_status status reason) (\<lambda>_. json_ip b))"

definition is_RequestException :: "exn \<Rightarrow> bool" where
  "is_RequestException e = (case e of RequestException _ \<Rightarrow> True | _ \<Rightarrow> False)"

definition is_socket_error :: "exn \<Rightarrow> bool" where
  "is_socket_error e = (case e of OSError _ \<Rightarrow> True | _ \<Rightarrow> False)"

text \<open>\<^verbatim>\<open>get_public_ip\<close>, richfetch.py lines 14-38.\<close>

definition get_public_ip :: "host \<Rightarrow> string option comp" where
  "get_public_ip h =
     try_except (request_ip h) (\<lambda>e.
       if is_RequestException e
         then bind (emit (Printed (''Error retrieving public IP address: '' @ exn_str e))) (\<lambda>_. ret None)
       else bind (emit (Printed (''Unexpected error: '' @ exn_str e))) (\<lambda>_. ret None))"

text \<open>The \<^verbatim>\<open>try\<close> block shared by \<^verbatim>\<open>get_private_ip\<close> and \<^verbatim>\<open>get_local_address\<close>.\<close>

definition socket_ip :: "host \<Rightarrow> string option comp" where
  "socket_ip h =
     bind (case socket_new h of
             Some e \<Rightarrow> bind (emit Socket_refused) (\<lambda>_. raise e)
           | None \<Rightarrow> emit Socket_opened) (\<lambda>_.
     bind (bind (emit Socket_connect) (\<lambda>_.
             case socket_connect h of Some e \<Rightarrow> raise e | None \<Rightarrow> ret ())) (\<lambda>_.
     bind (bind (emit Socket_getsockname) (\<lambda>_. lift (socket_getsockname h))) (\<lambda>ip.
     bind (emit Socket_closed) (\<lambda>_.
     ret (Some ip)))))"

text \<open>\<^verbatim>\<open>get_private_ip\<close>, richfetch.py lines 41-70.\<close>

definition get_private_ip :: "host \<Rightarrow> string option comp" where
  "get_private_ip h =
     try_except (socket_ip h) (\<lambda>e.
       if is_socket_error e
         then bind (emit (Printed (''Error retrieving local IP address: '' @ exn_str e))) (\<lambda>_. ret None)
       else bind (emit (Printed (''Unexpected error: '' @ exn_str e))) (\<lambda>_. ret None))"

text \<open>\<^verbatim>\<open>get_cpu_temperature\<close>, richfetch.py lines 73-109.\<close>

definition sensors :: "string list" where
  "sensors = [''coretemp'', ''k10temp'', ''cpu-thermal'', ''lm_sensors'', ''asus-nb'', ''lm75'',
              ''acpitz'']"

fun probe :: "(string \<times> shwtemp list) list \<Rightarrow> string list \<Rightarrow> real option" where
  "probe all_temperatures [] = None"
| "probe all_temperatures (sensor # rest) =
     (case map_of all_temperatures sensor of
        Some (t # ts) \<Rightarrow> Some (current t)
      | _ \<Rightarrow> probe all_temperatures rest)"

definition get_cpu_temperature :: "host \<Rightarrow> real option" where
  "get_cpu_temperature h =
     (case sensors_temperatures h of
        None \<Rightarrow> None
      | Some all_temperatures \<Rightarrow> probe all_temperatures sensors)"

subsection \<open>get\_system\_info and main of richfetch.py\<close>

text \<open>Python's \<^verbatim>\<open>round\<close> of a float to an \<^verbatim>\<open>int\<close>: to the nearest, ties to the even one.\<close>

definition py_round :: "real \<Rightarrow> int" where
  "py_round x =
     (let f = \<lfloor>x\<rfloor>; d = x - real_of_int f
      in if d < 1 / 2 then f else if 1 / 2 < d then f + 1 else if even f then f else f + 1)"

text \<open>\<^verbatim>\<open>a or b\<close> on two values that are a string or \<^verbatim>\<open>None\<close>: the empty string is false.\<close>

definition py_or :: "string option \<Rightarrow> string option \<Rightarrow> string option" where
  "py_or a b = (case a of Some (c # cs) \<Rightarrow> a | _ \<Rightarrow> b)"

text \<open>Lines 228-240: the name of the operating system and its logo.\<close>

definition resolve_os :: "host \<Rightarrow> (string \<times> string) comp" where
  "resolve_os h =
     (if system h = ''Darwin'' then
        ret (''macos '' @ mac_ver h, get_os_logo (ansi h) ''macOS'')
      else if system h = ''Windows'' then
        ret (''Windows '' @ win32_ver h, get_os_logo (ansi h) ''Windows'')
      else
        bind (lift (freedesktop_os_release h)) (\<lambda>release.
        bind (lift (getitem release ''PRETTY_NAME'')) (\<lambda>os_name.
        ret (os_name, get_os_logo (ansi h) os_name))))"

text \<open>\<^verbatim>\<open>f"{used:.2f} / {total:.2f} GB ({percent:.2f}%)"\<close>, lines 300-313.\<close>

definition usage_str :: "host \<Rightarrow> usage \<Rightarrow> string" where
  "usage_str h u =
     float_2f h (real (used u) / 1024 ^ 3) @ '' / '' @ float_2f h (real (total u) / 1024 ^ 3) @
     '' GB ('' @ float_2f h (usage_percent u) @ ''%)''"

text \<open>The local variables of \<^verbatim>\<open>get_system_info\<close> that the display is built from.\<close>

record locals =
  v_os_name :: string
  v_os_logo :: string
  v_username :: string
  v_hostname :: string
  v_uptime_str :: string
  v_wm :: "string option"
  v_cpu_name :: string
  v_cpu_per :: string
  v_cpu_usage_color :: colour
  v_temp_str :: "string option"
  v_temp_color :: colour
  v_battery :: "string option"
  v_battery_logo :: string
  v_private_ip :: "string option"
  v_public_ip :: "string option"
  v_disk_usage_str :: string
  v_disk_usage_color :: colour
  v_ram_usage_str :: string
  v_ram_usage_color :: colour
  v_colored_line :: string

text \<open>Lines 318-351: the display dict and its conditional updates.\<close>

definition build_display :: "bool \<Rightarrow> locals \<Rightarrow> (string, string option) dict" where
  "build_display a v =
     (let display = dict_literal [
            (colored a icon_user Green, Some (colored a (v_username v @ ''@'' @ v_hostname v) Green)),
            (v_os_logo v, Some (v_os_name v)),
            (colored a icon_cpu Blue, Some (v_cpu_name v)),
            (colored a icon_cpu (v_cpu_usage_color v), Some (v_cpu_per v @ ''%''))];
          display = (if v_temp_str v \<noteq> None
                     then dict_update display [(colored a icon_temp (v_temp_color v), v_temp_str v)]
                     else display);
          display = (if v_battery v \<noteq> None
                     then dict_update display [(colored a (v_battery_logo v) Green, v_battery v)]
                     else display);
          display = dict_update display [
            (colored a icon_wm Red, v_wm v),
            (colored a icon_uptime Magenta, Some (v_uptime_str v)),
            (colored a icon_ram (v_ram_usage_color v), Some (v_ram_usage_str v)),
            (colored a icon_disk (v_disk_usage_color v), Some (v_disk_usage_str v))];
          display = (if v_private_ip v \<noteq> None
                     then dict_update display [(colored a icon_private_ip Green, v_private_ip v)]
                     else display);
          display = (if v_public_ip v \<noteq> None
                     then dict_update display [(colored a icon_public_ip Green, v_public_ip v)]
                     else display)
      in dict_update display [('' '', Some (v_colored_line v))])"

text \<open>Lines 275-286: the battery entry and its logo.\<close>

definition battery_str :: "host \<Rightarrow> string option" where
  "battery_str h =
     (case sensors_battery h of
        None \<Rightarrow> None
      | Some b \<Rightarrow> Some (str_int (py_round (percent b)) @ ''%''))"

definition plugged :: "host \<Rightarrow> bool option" where
  "plugged h = (case sensors_battery h of None \<Rightarrow> None | Some b \<Rightarrow> power_plugged b)"

definition battery_logo :: "host \<Rightarrow> string" where
  "battery_logo h = (if plugged h = Some True then icon_plugged else icon_battery)"

text \<open>
  \<^verbatim>\<open>get_system_info\<close>, richfetch.py lines 214-351, in the order of the source: lines
  214-316 collect the local variables (\<open>collect\<close>), lines 318-351 build the display.
  The parsed command line is the record \<open>args\<close>.
\<close>

definition collect :: "host \<Rightarrow> args \<Rightarrow> locals comp" where
  "collect h a =
     bind (resolve_os h) (\<lambda>(os_name, os_logo).
     bind (lift (getlogin h)) (\<lambda>username.
     bind (lift (nodename h)) (\<lambda>hostname.
     bind (lift (getitem (cpu_info h) ''brand_raw'')) (\<lambda>cpu_name.
     let temp = get_cpu_temperature h in
     bind (if show_private_ip a then get_private_ip h else ret None) (\<lambda>private_ip.
     bind (if show_public_ip a then get_public_ip h else ret None) (\<lambda>public_ip.
     ret \<lparr>
       v_os_name = os_name,
       v_os_logo = os_logo,
       v_username = username,
       v_hostname = hostname,
       v_uptime_str = uptime_str (now h) (boot_time h),
       v_wm = py_or (map_of (environ h) ''DESKTOP_SESSION'') (map_of (environ h) ''XDG_SESSION_TYPE''),
       v_cpu_name = cpu_name,
       v_cpu_per = float_str h (cpu_percent h),
       v_cpu_usage_color = color_usage_percent (cpu_percent h),
       v_temp_str = (case temp of Some t \<Rightarrow> Some (float_str h t @ icon_degree) | None \<Rightarrow> None),
       v_temp_color = (case temp of Some t \<Rightarrow> color_cpu_temp t | None \<Rightarrow> Red),
       v_battery = battery_str h,
       v_battery_logo = battery_logo h,
       v_private_ip = private_ip,
       v_public_ip = public_ip,
       v_disk_usage_str = usage_str h (disk_usage h),
       v_disk_usage_color = color_usage_percent (usage_percent (disk_usage h)),
       v_ram_usage_str = usage_str h (virtual_memory h),
       v_ram_usage_color = color_usage_percent (usage_percent (virtual_memory h)),
       v_colored_line = dynamic_color_line (ansi h)\<rparr>))))))"

definition get_system_info :: "host \<Rightarrow> args \<Rightarrow> (string, string option) dict comp" where
  "get_system_info h a = bind (collect h a) (\<lambda>v. ret (build_display (ansi h) v))"

text \<open>\<^verbatim>\<open>f"  {key}  {value}"\<close>: a value that is \<^verbatim>\<open>None\<close> is written as \<^verbatim>\<open>None\<close>.\<close>

definition str_value :: "string option \<Rightarrow> string" where
  "str_value v = (case v of None \<Rightarrow> ''None'' | Some s \<Rightarrow> s)"

definition entry_line :: "string \<times> string option \<Rightarrow> string" where
  "entry_line kv = ''  '' @ fst kv @ ''  '' @ str_value (snd kv)"

fun print_items :: "(string, string option) dict \<Rightarrow> unit comp" where
  "print_items [] = ret ()"
| "print_items (kv # rest) = bind (emit (Printed (entry_line kv))) (\<lambda>_. print_items rest)"

text \<open>\<^verbatim>\<open>main\<close>, richfetch.py lines 354-360.\<close>

definition main :: "host \<Rightarrow> args \<Rightarrow> unit comp" where
  "main h a =
     bind (get_system_info h a) (\<lambda>system_info.
     bind (emit (Printed [])) (\<lambda>_.
     bind (print_items system_info) (\<lambda>_.
     emit (Printed []))))"

subsection \<open>fetch.py\<close>

text \<open>\<^verbatim>\<open>get_public_address\<close>, fetch.py lines 12-18.\<close>

definition get_public_address :: "host \<Rightarrow> string option comp" where
  "get_public_address h = try_except (request_ip h) (\<lambda>e. ret None)"

text \<open>\<^verbatim>\<open>get_local_address\<close>, fetch.py lines 21-29.\<close>

definition get_local_address :: "host \<Rightarrow> string option comp" where
  "get_local_address h = try_except (socket_ip h) (\<lambda>e. ret None)"

text \<open>\<^verbatim>\<open>psutil.sensors_temperatures()['coretemp'][0].current\<close>, fetch.py line 61.\<close>

definition coretemp_current :: "host \<Rightarrow> exn + real" where
  "coretemp_current h =
     (case sensors_temperatures h of
        None \<Rightarrow> Inl (TypeError ''NoneType object is not subscriptable'')
      | Some all_temperatures \<Rightarrow>
          (case getitem all_temperatures ''coretemp'' of
             Inl e \<Rightarrow> Inl e
           | Inr [] \<Rightarrow> Inl (IndexError ''list index out of range'')
           | Inr (t # ts) \<Rightarrow> Inr (current t)))"

text \<open>\<^verbatim>\<open>get_system_info\<close>, fetch.py lines 32-93.\<close>

definition fetch_get_system_info :: "host \<Rightarrow> (string, string option) dict comp" where
  "fetch_get_system_info h =
     bind (lift (getlogin h)) (\<lambda>username.
     bind (lift (nodename h)) (\<lambda>hostname.
     let uptime_str = uptime_str (now h) (boot_time h);
         wm = py_or (map_of (environ h) ''DESKTOP_SESSION'') (map_of (environ h) ''XDG_SESSION_TYPE'')
     in
     bind (lift (getitem (cpu_info h) ''brand_raw'')) (\<lambda>cpu_name.
     let cpu_per = cpu_percent h in
     bind (lift (coretemp_current h)) (\<lambda>temp.
     let temp_str = float_str h temp @ icon_degree in
     bind (get_local_address h) (\<lambda>local_address.
     bind (get_public_address h) (\<lambda>public_address.
     let disk_usage_str = usage_str h (disk_usage h);
         ram_usage_str = usage_str h (virtual_memory h);
         a = ansi h
     in ret (dict_literal [
          (colored a icon_user Blue, Some (colored a (username @ ''@'' @ hostname) Green)),
          (colored a icon_cpu Blue, Some cpu_name),
          (colored a icon_cpu Blue, Some (float_str h cpu_per @ ''%'')),
          (colored a icon_temp Red, Some temp_str),
          (colored a icon_wm Blue, wm),
          (colored a icon_uptime Yellow, Some uptime_str),
          (colored a icon_ram Red, Some ram_usage_str),
          (colored a icon_disk Magenta, Some disk_usage_str),
          (colored a icon_private_ip Yellow, local_address),
          (colored a icon_private_ip Green, public_address)])))))))"

text \<open>The script body of fetch.py, lines 95-100.\<close>

definition fetch_main :: "host \<Rightarrow> unit comp" where
  "fetch_main h =
     bind (fetch_get_system_info h) (\<lambda>system_info.
     bind (emit (Printed [])) (\<lambda>_.
     print_items system_info))"

text \<open>The exit status of the interpreter: 0 when the script ends, 1 on an uncaught exception.\<close>

definition exit_code :: "'a comp \<Rightarrow> nat" where
  "exit_code c = (case snd c of Inl e \<Rightarrow> 1 | Inr x \<Rightarrow> 0)"

text \<open>The lines a computation wrote to standard output.\<close>

definition printed :: "event list \<Rightarrow> string list" where
  "printed es = concat (map (\<lambda>ev. case ev of Printed s \<Rightarrow> [s] | _ \<Rightarrow> []) es)"

definition stdout :: "'a comp \<Rightarrow> string list" where
  "stdout c = printed (fst c)"


subsection \<open>The report as the specification lists it\<close>

text \<open>
  The entries in the order the specification gives for the rich report, as a plain list:
  nothing is looked up, replaced or merged. It is compared with \<open>build_display\<close> below.
\<close>

definition optional_entry :: "string \<Rightarrow> string option \<Rightarrow> (string \<times> string option) list" where
  "optional_entry k v = (case v of None \<Rightarrow> [] | Some s \<Rightarrow> [(k, Some s)])"

definition report_entries :: "bool \<Rightarrow> locals \<Rightarrow> (string \<times> string option) list" where
  "report_entries a v =
     [(colored a icon_user Green, Some (colored a (v_username v @ ''@'' @ v_hostname v) Green)),
      (v_os_logo v, Some (v_os_name v)),
      (colored a icon_cpu Blue, Some (v_cpu_name v)),
      (colored a icon_cpu (v_cpu_usage_color v), Some (v_cpu_per v @ ''%''))] @
     optional_entry (colored a icon_temp (v_temp_color v)) (v_temp_str v) @
     optional_entry (colored a (v_battery_logo v) Green) (v_battery v) @
     [(colored a icon_wm Red, v_wm v),
      (colored a icon_uptime Magenta, Some (v_uptime_str v)),
      (colored a icon_ram (v_ram_usage_color v), Some (v_ram_usage_str v)),
      (colored a icon_disk (v_disk_usage_color v), Some (v_disk_usage_str v))] @
     optional_entry (colored a icon_private_ip Green) (v_private_ip v) @
     optional_entry (colored a icon_public_ip Green) (v_public_ip v) @
     [('' '', Some (v_colored_line v))]"

text \<open>The icons of the labels other than the logo of the operating system.\<close>

definition label_icons :: "string list" where
  "label_icons = [icon_user, icon_cpu, icon_temp, icon_plugged, icon_battery, icon_wm,
                  icon_uptime, icon_ram, icon_disk, icon_private_ip, icon_public_ip]"


text \<open>A socket was obtained and never closed.\<close>

definition socket_left_open :: "event list \<Rightarrow> bool" where
  "socket_left_open es = (Socket_opened \<in> set es \<and> Socket_closed \<notin> set es)"

text \<open>The display a computation returned; the empty dict when it raised.\<close>

definition the_display :: "(string, string option) dict comp \<Rightarrow> (string, string option) dict" where
  "the_display c = (case snd c of Inl e \<Rightarrow> [] | Inr d \<Rightarrow> d)"

text \<open>
  The outcomes of the HTTP call on which the public-IP lookup has no address to return:
  the request raises, the status is one that \<^verbatim>\<open>raise_for_status\<close> rejects (400 to 599),
  or the body is not JSON, not an object, or an object without the field \<^verbatim>\<open>ip\<close>.
\<close>

definition http_fails :: "http_outcome \<Rightarrow> bool" where
  "http_fails out =
     (case out of
        Transport e \<Rightarrow> True
      | Response status reason b \<Rightarrow>
          (400 \<le> status \<and> status < 600) \<or>
          (case b of Not_json e \<Rightarrow> True | Non_object msg \<Rightarrow> True
           | Object obj \<Rightarrow> map_of obj ''ip'' = None))"

subsection \<open>Example hosts\<close>

text \<open>
  A Linux laptop with an Intel sensor, no route to the network and colouring on. The two
  float renderers of the examples write the integer part only.
\<close>

definition example_host :: host where
  "example_host = \<lparr>
     ansi = True,
     float_str = (\<lambda>x. str_int \<lfloor>x\<rfloor> @ ''.0''),
     float_2f = (\<lambda>x. str_int \<lfloor>x\<rfloor> @ ''.00''),
     system = ''Linux'',
     mac_ver = [],
     win32_ver = [],
     freedesktop_os_release = Inr [(''NAME'', ''Arch Linux''), (''PRETTY_NAME'', ''Arch Linux'')],
     getlogin = Inr ''karch'',
     nodename = Inr ''box'',
     boot_time = 1700000000000000,
     now = 1700013510000000,
     environ = [(''HOME'', ''/home/karch'')],
     cpu_info = [(''brand_raw'', ''Intel Core i7'')],
     cpu_percent = 12,
     sensors_temperatures = Some [(''acpitz'', [\<lparr>label = [], current = 40\<rparr>]),
                                  (''coretemp'', [\<lparr>label = ''Package id 0'', current = 45\<rparr>])],
     sensors_battery = Some \<lparr>percent = 87, power_plugged = Some False\<rparr>,
     socket_new = None,
     socket_connect = Some (OSError ''[Errno 101] Network is unreachable''),
     socket_getsockname = Inr ''192.168.1.7'',
     http = Transport (RequestException ''Max retries exceeded''),
     disk_usage = \<lparr>total = 500 * 1024 ^ 3, used = 250 * 1024 ^ 3, usage_percent = 50\<rparr>,
     virtual_memory = \<lparr>total = 16 * 1024 ^ 3, used = 4 * 1024 ^ 3, usage_percent = 25\<rparr>\<rparr>"

text \<open>The same machine with an AMD processor: its sensor is \<^verbatim>\<open>k10temp\<close>.\<close>

definition amd_host :: host where
  "amd_host = example_host\<lparr>sensors_temperatures :=
     Some [(''k10temp'', [\<lparr>label = ''Tctl'', current = 45\<rparr>])]\<rparr>"

text \<open>The same machine on the network.\<close>

definition online_host :: host where
  "online_host = example_host\<lparr>
     socket_connect := None,
     http := Response 200 ''OK'' (Object [(''ip'', Some ''203.0.113.9'')])\<rparr>"

text \<open>The echo service answers 300 with the usual body.\<close>

definition redirect_host :: host where
  "redirect_host = example_host\<lparr>
     http := Response 300 ''Multiple Choices'' (Object [(''ip'', Some ''203.0.113.9'')])\<rparr>"

definition no_flags :: args where
  "no_flags = \<lparr>show_public_ip = False, show_private_ip = False\<rparr>"

definition both_flags :: args where
  "both_flags = \<lparr>show_public_ip = True, show_private_ip = True\<rparr>"

section \<open>Properties\<close>

subsection \<open>Dictionaries, colours and logos\<close>

lemmas comp_defs = ret_def raise_def emit_def lift_def bind_def try_except_def

lemma colored_eq_iff [simp]:
  "colored a g c = colored a g' c' \<longleftrightarrow> g = g' \<and> (a \<longrightarrow> c = c')"
  by (cases a; cases c; cases c') (simp_all add: colored_def colour_code_def)

lemma colored_not_blank [simp]:
  "g \<noteq> '' '' \<Longrightarrow> colored a g c \<noteq> '' ''" "g \<noteq> '' '' \<Longrightarrow> '' '' \<noteq> colored a g c"
  by (cases a; simp add: colored_def)+

lemma set_dict_set: "set (dict_set d k v) \<subseteq> insert (k, v) (set d)"
  by (induction d) (auto split: if_splits)

lemma set_dict_update: "set (dict_update d xs) \<subseteq> set d \<union> set xs"
proof (induction xs arbitrary: d)
  case Nil
  then show ?case by (simp add: dict_update_def)
next
  case (Cons x xs)
  obtain k v where x: "x = (k, v)" by (cases x)
  have "dict_update d (x # xs) = dict_update (dict_set d k v) xs"
    by (simp add: dict_update_def x)
  with Cons [of "dict_set d k v"] set_dict_set [of d k v] x show ?case by auto
qed

lemma keys_dict_set:
  "keys (dict_set d k v) = (if k \<in> set (keys d) then keys d else keys d @ [k])"
  by (induction d) (fastforce simp: keys_def)+

lemma dict_set_fresh: "k \<notin> set (keys d) \<Longrightarrow> dict_set d k v = d @ [(k, v)]"
  by (induction d) (auto simp: keys_def)

lemma dict_update_simps [simp]:
  "dict_update d [] = d"
  "dict_update d ((k, v) # xs) = dict_update (dict_set d k v) xs"
  by (simp_all add: dict_update_def)

lemma ball_dict_update:
  "(\<forall>x \<in> set xs. Q x) \<Longrightarrow> \<forall>x \<in> set (dict_update [] xs). Q x"
  using set_dict_update [of "[]" xs] by auto

lemma logo_values:
  assumes "map_of (logo_dict a) n = Some l"
  shows "l \<noteq> '' '' \<and> (\<forall>k \<in> set label_icons. \<forall>c. l \<noteq> colored a k c)"
proof -
  have "\<forall>x \<in> set (logo_dict a).
      snd x \<noteq> '' '' \<and> (\<forall>k \<in> set label_icons. \<forall>c. snd x \<noteq> colored a k c)"
    unfolding logo_dict_def dict_literal_def
    by (rule ball_dict_update) (simp add: label_icons_def logo_table_def)
  moreover have "(n, l) \<in> set (logo_dict a)" using assms by (rule map_of_SomeD)
  ultimately show ?thesis by fastforce
qed

lemma get_os_logo_not_label:
  "get_os_logo a n \<noteq> '' ''" "k \<in> set label_icons \<Longrightarrow> get_os_logo a n \<noteq> colored a k c"
  using logo_values [of a n]
  by (auto simp: get_os_logo_def label_icons_def split: option.splits)

lemma build_display_entries:
  assumes os: "v_os_logo v \<noteq> '' ''"
      "\<And>k c. k \<in> set label_icons \<Longrightarrow> v_os_logo v \<noteq> colored True k c"
    and cpu: "v_cpu_usage_color v \<noteq> Blue"
    and bat: "v_battery_logo v = icon_plugged \<or> v_battery_logo v = icon_battery"
  shows "build_display True v = report_entries True v"
proof -
  have os': "colored True k c \<noteq> v_os_logo v" if "k \<in> set label_icons" for k c
    using os(2) [OF that, of c] by (rule not_sym)
  have os'': "'' '' \<noteq> v_os_logo v"
    using os(1) by (rule not_sym)
  have cpu': "Blue \<noteq> v_cpu_usage_color v" using cpu by simp
  note facts = build_display_def report_entries_def optional_entry_def dict_literal_def
          label_icons_def os os' os'' cpu cpu' Let_def
  from bat show ?thesis
  proof
    assume b: "v_battery_logo v = icon_plugged"
    show ?thesis
      by (cases "v_temp_str v"; cases "v_battery v"; cases "v_private_ip v"; cases "v_public_ip v")
         (simp_all add: facts b)
  next
    assume b: "v_battery_logo v = icon_battery"
    show ?thesis
      by (cases "v_temp_str v"; cases "v_battery v"; cases "v_private_ip v"; cases "v_public_ip v")
         (simp_all add: facts b)
  qed
qed

subsection \<open>Computations\<close>

lemma snd_bind_Inr: "snd (bind m f) = Inr y \<longleftrightarrow> (\<exists>x. snd m = Inr x \<and> snd (f x) = Inr y)"
  by (cases m; cases "snd m") (auto simp: bind_def split: prod.splits)

lemma snd_bind_Inl:
  "snd (bind m f) = Inl e \<longleftrightarrow> snd m = Inl e \<or> (\<exists>x. snd m = Inr x \<and> snd (f x) = Inl e)"
  by (cases m; cases "snd m") (auto simp: bind_def split: prod.splits)

lemma fst_bind:
  "fst (bind m f) = (case snd m of Inl e \<Rightarrow> fst m | Inr x \<Rightarrow> fst m @ fst (f x))"
  by (cases m; cases "snd m") (auto simp: bind_def split: prod.splits)

lemma comp_simps [simp]:
  "snd (ret x) = Inr x" "fst (ret x) = []"
  "snd (raise e) = Inl e" "fst (raise e) = []"
  "snd (emit ev) = Inr ()" "fst (emit ev) = [ev]"
  "snd (lift r) = r" "fst (lift r) = []"
  by (simp_all add: comp_defs)

lemma snd_try_except:
  "snd (try_except m handler) = (case snd m of Inl e \<Rightarrow> snd (handler e) | Inr x \<Rightarrow> Inr x)"
  by (cases m; cases "snd m") (auto simp: try_except_def split: prod.splits)

lemma fst_try_except:
  "fst (try_except m handler) = (case snd m of Inl e \<Rightarrow> fst m @ fst (handler e) | Inr x \<Rightarrow> fst m)"
  by (cases m; cases "snd m") (auto simp: try_except_def split: prod.splits)

lemma get_private_ip_returns: "\<exists>r. snd (get_private_ip h) = Inr r"
  by (simp add: get_private_ip_def snd_try_except snd_bind_Inr split: sum.splits)

lemma get_public_ip_returns: "\<exists>r. snd (get_public_ip h) = Inr r"
  by (simp add: get_public_ip_def snd_try_except snd_bind_Inr split: sum.splits)

lemma get_local_address_returns: "\<exists>r. snd (get_local_address h) = Inr r"
  by (simp add: get_local_address_def snd_try_except split: sum.splits)

lemma get_public_address_returns: "\<exists>r. snd (get_public_address h) = Inr r"
  by (simp add: get_public_address_def snd_try_except split: sum.splits)

lemma fst_resolve_os: "fst (resolve_os h) = []"
  by (simp add: resolve_os_def fst_bind split: sum.splits)

lemma resolve_os_logo:
  "snd (resolve_os h) = Inr (n, l) \<Longrightarrow> \<exists>key. l = get_os_logo (ansi h) key"
  by (auto simp: resolve_os_def snd_bind_Inr split: if_splits)

lemma collect_Inr:
  assumes "snd (collect h a) = Inr v"
  shows "\<exists>key. v_os_logo v = get_os_logo (ansi h) key"
    and "v_cpu_usage_color v = color_usage_percent (cpu_percent h)"
    and "v_battery_logo v = battery_logo h"
    and "v_battery v = battery_str h"
    and "v_temp_str v = (case get_cpu_temperature h of Some t \<Rightarrow> Some (float_str h t @ icon_degree) | None \<Rightarrow> None)"
    and "snd (if show_private_ip a then get_private_ip h else ret None) = Inr (v_private_ip v)"
    and "snd (if show_public_ip a then get_public_ip h else ret None) = Inr (v_public_ip v)"
    and "v_colored_line v = dynamic_color_line (ansi h)"
  using assms resolve_os_logo [of h]
  by (auto simp: collect_def snd_bind_Inr Let_def split: prod.splits if_splits)

subsection \<open>Running the two programs\<close>

lemma print_items_simps [simp]:
  "fst (print_items d) = map (\<lambda>kv. Printed (entry_line kv)) d"
  "snd (print_items d) = Inr ()"
  by (induction d) (simp_all add: fst_bind snd_bind_Inr)

lemma get_system_info_simps:
  "snd (get_system_info h a) =
     (case snd (collect h a) of Inl e \<Rightarrow> Inl e | Inr v \<Rightarrow> Inr (build_display (ansi h) v))"
  "fst (get_system_info h a) = fst (collect h a)"
  by (cases "collect h a"; cases "snd (collect h a)"; simp add: get_system_info_def comp_defs)+

lemma main_simps:
  "snd (main h a) = (case snd (collect h a) of Inl e \<Rightarrow> Inl e | Inr v \<Rightarrow> Inr ())"
  "fst (main h a) =
     (case snd (collect h a) of
        Inl e \<Rightarrow> fst (collect h a)
      | Inr v \<Rightarrow> fst (collect h a) @ [Printed []] @
                 map (\<lambda>kv. Printed (entry_line kv)) (build_display (ansi h) v) @ [Printed []])"
  by (cases "snd (collect h a)"; cases "snd (main h a)";
      simp add: main_def fst_bind snd_bind_Inr snd_bind_Inl get_system_info_simps)+

lemma fetch_main_simps:
  "snd (fetch_main h) = (case snd (fetch_get_system_info h) of Inl e \<Rightarrow> Inl e | Inr d \<Rightarrow> Inr ())"
  "fst (fetch_main h) =
     (case snd (fetch_get_system_info h) of
        Inl e \<Rightarrow> fst (fetch_get_system_info h)
      | Inr d \<Rightarrow> fst (fetch_get_system_info h) @ [Printed []] @
                 map (\<lambda>kv. Printed (entry_line kv)) d)"
  by (cases "snd (fetch_get_system_info h)"; cases "snd (fetch_main h)";
      simp add: fetch_main_def fst_bind snd_bind_Inr snd_bind_Inl)+

lemma printed_simps [simp]:
  "printed [] = []"
  "printed (es @ es') = printed es @ printed es'"
  "printed (Printed s # es) = s # printed es"
  "printed (map (\<lambda>kv. Printed (entry_line kv)) d) = map entry_line d"
  by (induction d) (simp_all add: printed_def)

lemma collect_events:
  "fst (collect h a) =
     (case snd (collect h a) of
        Inl e \<Rightarrow> []
      | Inr v \<Rightarrow> fst (if show_private_ip a then get_private_ip h else ret None) @
                 fst (if show_public_ip a then get_public_ip h else ret None))"
  using get_private_ip_returns [of h] get_public_ip_returns [of h]
  by (cases "snd (resolve_os h)"; cases "getlogin h"; cases "nodename h";
      cases "getitem (cpu_info h) ''brand_raw''")
     (auto simp: collect_def fst_bind snd_bind_Inr snd_bind_Inl fst_resolve_os Let_def
           split: prod.splits sum.splits)

subsection \<open>The keys of a display\<close>

lemma set_keys_dict_set [simp]: "set (keys (dict_set d k v)) = insert k (set (keys d))"
  by (auto simp: keys_dict_set)

lemma keys_Nil [simp]: "keys [] = []"
  by (simp add: keys_def)

lemma keys_build_display:
  "set (keys (build_display a v)) =
     {colored a icon_user Green, v_os_logo v, colored a icon_cpu Blue,
      colored a icon_cpu (v_cpu_usage_color v), colored a icon_wm Red,
      colored a icon_uptime Magenta, colored a icon_ram (v_ram_usage_color v),
      colored a icon_disk (v_disk_usage_color v), '' ''} \<union>
     (if v_temp_str v \<noteq> None then {colored a icon_temp (v_temp_color v)} else {}) \<union>
     (if v_battery v \<noteq> None then {colored a (v_battery_logo v) Green} else {}) \<union>
     (if v_private_ip v \<noteq> None then {colored a icon_private_ip Green} else {}) \<union>
     (if v_public_ip v \<noteq> None then {colored a icon_public_ip Green} else {})"
  unfolding build_display_def Let_def dict_literal_def
  by (simp only: dict_update_simps set_keys_dict_set keys_Nil if_distrib [of "\<lambda>d. set (keys d)"]
        if_distrib [of "\<lambda>d. dict_update d xs" for xs] if_distrib [of "\<lambda>d. dict_set d k x" for k x] ) auto

lemma battery_logo_cases: "battery_logo h = icon_plugged \<or> battery_logo h = icon_battery"
  by (simp add: battery_logo_def)

lemma color_usage_percent_not_Blue [simp]:
  "color_usage_percent p \<noteq> Blue" "Blue \<noteq> color_usage_percent p"
  by (simp_all add: color_usage_percent_def)

lemma os_logo_neq:
  "k \<in> set label_icons \<Longrightarrow> colored a k c \<noteq> get_os_logo a n"
  "k \<in> set label_icons \<Longrightarrow> get_os_logo a n \<noteq> colored a k c"
  "'' '' \<noteq> get_os_logo a n"
  "get_os_logo a n \<noteq> '' ''"
  using get_os_logo_not_label(1) [of a n] get_os_logo_not_label(2) [of k a n c]
  by (metis not_sym)+

lemma rich_keys:
  assumes c: "snd (collect h a) = Inr v"
  shows "colored (ansi h) icon_private_ip Green \<in> set (keys (build_display (ansi h) v))
           \<longleftrightarrow> v_private_ip v \<noteq> None"
    and "colored (ansi h) icon_public_ip Green \<in> set (keys (build_display (ansi h) v))
           \<longleftrightarrow> v_public_ip v \<noteq> None"
    and "(\<exists>c. colored (ansi h) icon_temp c \<in> set (keys (build_display (ansi h) v)))
           \<longleftrightarrow> v_temp_str v \<noteq> None"
    and "(colored (ansi h) icon_plugged Green \<in> set (keys (build_display (ansi h) v)) \<or>
          colored (ansi h) icon_battery Green \<in> set (keys (build_display (ansi h) v)))
           \<longleftrightarrow> v_battery v \<noteq> None"
proof -
  from collect_Inr(1) [OF c] obtain key where os: "v_os_logo v = get_os_logo (ansi h) key" ..
  have bat: "v_battery_logo v = icon_plugged \<or> v_battery_logo v = icon_battery"
    using collect_Inr(3) [OF c] battery_logo_cases [of h] by simp
  note facts = keys_build_display os os_logo_neq label_icons_def
  show "colored (ansi h) icon_private_ip Green \<in> set (keys (build_display (ansi h) v))
           \<longleftrightarrow> v_private_ip v \<noteq> None"
    using bat by (auto simp: facts)
  show "colored (ansi h) icon_public_ip Green \<in> set (keys (build_display (ansi h) v))
           \<longleftrightarrow> v_public_ip v \<noteq> None"
    using bat by (auto simp: facts)
  show "(\<exists>c. colored (ansi h) icon_temp c \<in> set (keys (build_display (ansi h) v)))
           \<longleftrightarrow> v_temp_str v \<noteq> None"
    using bat by (auto simp: facts)
  show "(colored (ansi h) icon_plugged Green \<in> set (keys (build_display (ansi h) v)) \<or>
          colored (ansi h) icon_battery Green \<in> set (keys (build_display (ansi h) v)))
           \<longleftrightarrow> v_battery v \<noteq> None"
    using bat by (auto simp: facts)
qed



lemma the_display_get_system_info:
  "the_display (get_system_info h a) =
     (case snd (collect h a) of Inl e \<Rightarrow> [] | Inr v \<Rightarrow> build_display (ansi h) v)"
  by (simp add: the_display_def get_system_info_simps split: sum.splits)


lemma collect_online_returns: "\<exists>v. snd (collect online_host both_flags) = Inr v"
  using get_private_ip_returns [of online_host] get_public_ip_returns [of online_host]
  by (auto simp: collect_def snd_bind_Inr resolve_os_def getitem_def Let_def both_flags_def
      online_host_def example_host_def)

lemma fetch_online_returns: "\<exists>d. snd (fetch_get_system_info online_host) = Inr d"
  using get_local_address_returns [of online_host] get_public_address_returns [of online_host]
  by (auto simp: fetch_get_system_info_def snd_bind_Inr getitem_def Let_def coretemp_current_def
      online_host_def example_host_def)

subsection \<open>What a run prints\<close>

lemmas eval_defs = comp_defs get_private_ip_def get_local_address_def socket_ip_def
  get_public_ip_def get_public_address_def request_ip_def raise_for_status_def json_ip_def
  getitem_def is_socket_error_def is_RequestException_def

lemmas fetch_defs = fetch_main_def fetch_get_system_info_def coretemp_current_def
  dict_literal_def the_display_def keys_def Let_def

lemma fetch_collectors_silent:
  "stdout (get_local_address h) = []" "stdout (get_public_address h) = []"
  by (cases "socket_new h"; cases "socket_connect h"; cases "socket_getsockname h";
      cases "http h"; simp add: eval_defs stdout_def printed_def split: body.splits sum.splits)+

lemma fetch_events:
  "fst (fetch_get_system_info h) =
     (case snd (fetch_get_system_info h) of
        Inl e \<Rightarrow> []
      | Inr d \<Rightarrow> fst (get_local_address h) @ fst (get_public_address h))"
  using get_local_address_returns [of h] get_public_address_returns [of h]
  by (cases "getlogin h"; cases "nodename h"; cases "getitem (cpu_info h) ''brand_raw''";
      cases "coretemp_current h")
     (auto simp: fetch_get_system_info_def fst_bind snd_bind_Inr snd_bind_Inl Let_def
           split: prod.splits sum.splits)

lemma stdout_fetch_main:
  assumes "snd (fetch_get_system_info h) = Inr d"
  shows "stdout (fetch_main h) = [] # map entry_line d"
  using assms fetch_collectors_silent [of h]
  by (simp add: stdout_def fetch_main_simps fetch_events)

lemma stdout_main:
  assumes "snd (collect h a) = Inr v"
  shows "stdout (main h a) =
           stdout (collect h a) @ [[]] @ map entry_line (build_display (ansi h) v) @ [[]]"
  using assms by (simp add: stdout_def main_simps)

lemma rich_display_entries:
  assumes "ansi h" and v: "snd (collect h a) = Inr v"
  shows "build_display (ansi h) v = report_entries True v"
proof -
  from collect_Inr(1) [OF v] obtain key where os: "v_os_logo v = get_os_logo (ansi h) key" ..
  have "build_display True v = report_entries True v"
  proof (rule build_display_entries)
    show "v_os_logo v \<noteq> '' ''"
      using os os_logo_neq(4) by simp
    show "v_os_logo v \<noteq> colored True k c" if "k \<in> set label_icons" for k c
      using os os_logo_neq(2) [OF that, of "ansi h" key c] \<open>ansi h\<close> by simp
    show "v_cpu_usage_color v \<noteq> Blue"
      using collect_Inr(2) [OF v] by simp
    show "v_battery_logo v = icon_plugged \<or> v_battery_logo v = icon_battery"
      using collect_Inr(3) [OF v] battery_logo_cases [of h] by simp
  qed
  with \<open>ansi h\<close> show ?thesis by simp
qed

subsection \<open>The place of the OS entry and the logo table\<close>

lemma dict_set_keeps:
  "i < length d \<Longrightarrow> fst (d ! i) \<noteq> k \<Longrightarrow> i < length (dict_set d k x) \<and> dict_set d k x ! i = d ! i"
proof (induction d arbitrary: i)
  case Nil
  then show ?case by simp
next
  case (Cons kv d)
  then show ?case by (cases kv; cases i) auto
qed

lemma dict_update_keeps:
  "i < length d \<Longrightarrow> fst (d ! i) \<notin> fst ` set xs \<Longrightarrow>
     i < length (dict_update d xs) \<and> dict_update d xs ! i = d ! i"
proof (induction xs arbitrary: d)
  case Nil
  then show ?case by simp
next
  case (Cons kv xs)
  obtain k x where kv: "kv = (k, x)" by (cases kv)
  from Cons.prems have "fst (d ! i) \<noteq> k" by (simp add: kv)
  from dict_set_keeps [OF Cons.prems(1) this, of x] Cons.prems(2) Cons.IH [of "dict_set d k x"]
  show ?case by (simp add: kv)
qed

lemma build_display_os_entry:
  assumes os: "v_os_logo v \<noteq> '' ''"
      "\<And>k c. k \<in> set label_icons \<Longrightarrow> v_os_logo v \<noteq> colored a k c"
    and bat: "v_battery_logo v = icon_plugged \<or> v_battery_logo v = icon_battery"
  shows "1 < length (build_display a v) \<and>
         build_display a v ! 1 = (v_os_logo v, Some (v_os_name v))"
proof -
  define inv :: "(string \<times> string option) list \<Rightarrow> bool"
    where "inv d \<longleftrightarrow> 1 < length d \<and> d ! 1 = (v_os_logo v, Some (v_os_name v))" for d
  have os': "colored a k c \<noteq> v_os_logo v" if "k \<in> set label_icons" for k c
    using os(2) [OF that, of c] by (rule not_sym)
  have upd: "inv (dict_update d xs)" if "inv d" "v_os_logo v \<notin> fst ` set xs" for d xs
    using that dict_update_keeps [of 1 d xs] unfolding inv_def by simp
  have cond: "inv (if c then x else y)" if "c \<Longrightarrow> inv x" "\<not> c \<Longrightarrow> inv y" for c x y
    using that by simp
  have base: "inv (dict_literal [
            (colored a icon_user Green, Some (colored a (v_username v @ ''@'' @ v_hostname v) Green)),
            (v_os_logo v, Some (v_os_name v)),
            (colored a icon_cpu Blue, Some (v_cpu_name v)),
            (colored a icon_cpu (v_cpu_usage_color v), Some (v_cpu_per v @ ''%''))])"
    by (simp add: inv_def dict_literal_def label_icons_def os os')
  have "inv (build_display a v)"
    unfolding build_display_def Let_def
    using bat by (intro upd cond base) (auto simp: label_icons_def os os')
  then show ?thesis by (simp add: inv_def)
qed

lemma map_of_dict_set: "map_of (dict_set d k v) = (map_of d)(k \<mapsto> v)"
  by (induction d) (auto simp: fun_eq_iff)

lemma map_of_dict_update:
  "map_of (dict_update d xs) n =
     (case map_of (rev xs) n of None \<Rightarrow> map_of d n | Some v \<Rightarrow> Some v)"
proof (induction xs arbitrary: d)
  case Nil
  then show ?case by simp
next
  case (Cons kv xs)
  obtain k v where kv: "kv = (k, v)" by (cases kv)
  show ?case
    by (simp add: kv Cons.IH map_of_dict_set map_add_def split: option.splits)
qed

lemma get_os_logo_examples:
  "get_os_logo b ''Arch Linux'' = colored b [CHR 0xF3, CHR 0xB0, CHR 0xA3, CHR 0x87] Blue"
  "get_os_logo b ''arch linux'' = colored b icon_fallback Yellow"
  "get_os_logo b ''Arch'' = colored b icon_fallback Yellow"
  "get_os_logo b ''macOS'' = colored b [CHR 0xEE, CHR 0x9C, CHR 0x91] White"
  "get_os_logo b ''Windows'' = colored b [CHR 0xEE, CHR 0x9C, CHR 0x8F] Blue"
  unfolding get_os_logo_def logo_dict_def dict_literal_def map_of_dict_update
  by (simp_all add: logo_table_def)

lemma dict_update_distinct:
  "distinct (keys (d @ xs)) \<Longrightarrow> dict_update d xs = d @ xs"
proof (induction xs arbitrary: d)
  case Nil
  then show ?case by simp
next
  case (Cons kv xs)
  obtain k v where kv: "kv = (k, v)" by (cases kv)
  from Cons.prems have fresh: "k \<notin> set (keys d)" and rest: "distinct (keys ((d @ [(k, v)]) @ xs))"
    by (auto simp: kv keys_def)
  from Cons.IH [OF rest] dict_set_fresh [OF fresh] show ?case
    by (simp add: kv)
qed

lemma logo_names_distinct: "distinct (keys (logo_table b))"
  by (simp add: logo_table_def keys_def)

lemma logo_dict_eq_table: "logo_dict b = logo_table b"
  using dict_update_distinct [of "[]" "logo_table b"] logo_names_distinct [of b]
  by (simp add: logo_dict_def dict_literal_def)

lemma get_os_logo_lookup:
  "map_of (logo_dict b) n = Some l \<Longrightarrow> get_os_logo b n = l"
  "map_of (logo_dict b) n = None \<Longrightarrow> get_os_logo b n = colored b icon_fallback Yellow"
  by (simp_all add: get_os_logo_def)

lemma get_os_logo_fallback:
  "n \<notin> set (keys (logo_dict b)) \<Longrightarrow> get_os_logo b n = colored b icon_fallback Yellow"
  by (simp add: get_os_logo_def keys_def map_of_eq_None_iff [THEN iffD2])

lemma resolve_os_key:
  assumes "snd (resolve_os h) = Inr (name, logo)"
  shows "logo = get_os_logo (ansi h)
           (if system h = ''Darwin'' then ''macOS''
            else if system h = ''Windows'' then ''Windows'' else name)"
  using assms by (auto simp: resolve_os_def snd_bind_Inr split: if_splits)

lemma collect_os:
  assumes "snd (collect h a) = Inr v"
  shows "snd (resolve_os h) = Inr (v_os_name v, v_os_logo v)"
  using assms
  by (auto simp: collect_def snd_bind_Inr Let_def split: prod.splits)

lemma keys_dict_update: "set (keys (dict_update d xs)) = set (keys d) \<union> fst ` set xs"
proof (induction xs arbitrary: d)
  case Nil
  then show ?case by simp
next
  case (Cons kv xs)
  then show ?case by (cases kv) auto
qed

subsection \<open>The HTTP outcome and the rest of the report\<close>

lemma snd_bind:
  "snd (bind m f) = (case snd m of Inl e \<Rightarrow> Inl e | Inr x \<Rightarrow> snd (f x))"
  by (cases m; cases "snd m") (auto simp: bind_def split: prod.splits)

lemma public_ip_None:
  assumes "http_fails (http h)"
  shows "snd (get_public_ip h) = Inr None" "snd (get_public_address h) = Inr None"
  using assms
  by (cases "http h"; auto simp: http_fails_def eval_defs split: body.splits)+

lemma filter_dict_set_same:
  "filter (\<lambda>kv. fst kv \<noteq> k) (dict_set d k x) = filter (\<lambda>kv. fst kv \<noteq> k) d"
  by (induction d) auto

lemma filter_dict_set_other:
  "k' \<noteq> k \<Longrightarrow>
     filter (\<lambda>kv. fst kv \<noteq> k) (dict_set d k' x) = dict_set (filter (\<lambda>kv. fst kv \<noteq> k) d) k' x"
  by (induction d) auto

lemma dict_set_mem: "(k, x) \<in> set (dict_set d k x)"
  by (induction d) auto

lemma build_display_public_frame:
  "filter (\<lambda>kv. fst kv \<noteq> colored a icon_public_ip Green) (build_display a (v\<lparr>v_public_ip := p\<rparr>)) =
   filter (\<lambda>kv. fst kv \<noteq> colored a icon_public_ip Green) (build_display a v)"
  unfolding build_display_def Let_def
  by (simp add: filter_dict_set_same filter_dict_set_other)

lemma http_update_same:
  "resolve_os (h\<lparr>http := out\<rparr>) = resolve_os h"
  "get_private_ip (h\<lparr>http := out\<rparr>) = get_private_ip h"
  "get_local_address (h\<lparr>http := out\<rparr>) = get_local_address h"
  "get_cpu_temperature (h\<lparr>http := out\<rparr>) = get_cpu_temperature h"
  "coretemp_current (h\<lparr>http := out\<rparr>) = coretemp_current h"
  "battery_str (h\<lparr>http := out\<rparr>) = battery_str h"
  "battery_logo (h\<lparr>http := out\<rparr>) = battery_logo h"
  "usage_str (h\<lparr>http := out\<rparr>) = usage_str h"
  by (simp_all add: resolve_os_def get_private_ip_def get_local_address_def socket_ip_def
      get_cpu_temperature_def coretemp_current_def battery_str_def battery_logo_def plugged_def
      usage_str_def fun_eq_iff)

lemma collect_http:
  "\<exists>p. snd (collect (h\<lparr>http := out\<rparr>) a) =
         map_sum id (\<lambda>v. v\<lparr>v_public_ip := p\<rparr>) (snd (collect h a))"
proof -
  from get_private_ip_returns obtain r where r: "snd (get_private_ip h) = Inr r" ..
  from get_public_ip_returns obtain q where q: "snd (get_public_ip h) = Inr q" ..
  from get_public_ip_returns obtain q'
    where q': "snd (get_public_ip (h\<lparr>http := out\<rparr>)) = Inr q'" ..
  show ?thesis
    by (rule exI [of _ "if show_public_ip a then q' else None"];
        cases "snd (resolve_os h)"; cases "getlogin h"; cases "nodename h";
        cases "getitem (cpu_info h) ''brand_raw''")
       (simp_all add: collect_def snd_bind http_update_same Let_def r q q' split: prod.splits
          cong: option.case_cong)
qed

lemma fetch_http:
  "filter (\<lambda>kv. fst kv \<noteq> colored (ansi h) icon_private_ip Green)
      (the_display (fetch_get_system_info (h\<lparr>http := out\<rparr>))) =
   filter (\<lambda>kv. fst kv \<noteq> colored (ansi h) icon_private_ip Green)
      (the_display (fetch_get_system_info h))"
  "(\<exists>e. snd (fetch_get_system_info (h\<lparr>http := out\<rparr>)) = Inl e) \<longleftrightarrow>
       (\<exists>e. snd (fetch_get_system_info h) = Inl e)"
proof -
  from get_local_address_returns obtain r where r: "snd (get_local_address h) = Inr r" ..
  from get_public_address_returns obtain q where q: "snd (get_public_address h) = Inr q" ..
  from get_public_address_returns obtain q'
    where q': "snd (get_public_address (h\<lparr>http := out\<rparr>)) = Inr q'" ..
  note facts = fetch_get_system_info_def snd_bind http_update_same Let_def r q q' the_display_def
      dict_literal_def filter_dict_set_same
  show "filter (\<lambda>kv. fst kv \<noteq> colored (ansi h) icon_private_ip Green)
      (the_display (fetch_get_system_info (h\<lparr>http := out\<rparr>))) =
   filter (\<lambda>kv. fst kv \<noteq> colored (ansi h) icon_private_ip Green)
      (the_display (fetch_get_system_info h))"
    by (cases "getlogin h"; cases "nodename h"; cases "getitem (cpu_info h) ''brand_raw''";
        cases "coretemp_current h") (simp_all add: facts)
  show "(\<exists>e. snd (fetch_get_system_info (h\<lparr>http := out\<rparr>)) = Inl e) \<longleftrightarrow>
       (\<exists>e. snd (fetch_get_system_info h) = Inl e)"
    by (cases "getlogin h"; cases "nodename h"; cases "getitem (cpu_info h) ''brand_raw''";
        cases "coretemp_current h") (simp_all add: facts)
qed


lemma exit_code_main:
  "exit_code (main h a) = (case snd (collect h a) of Inl e \<Rightarrow> 1 | Inr v \<Rightarrow> 0)"
  "exit_code (fetch_main h) = (case snd (fetch_get_system_info h) of Inl e \<Rightarrow> 1 | Inr d \<Rightarrow> 0)"
  by (simp_all add: exit_code_def main_simps fetch_main_simps split: sum.splits)

lemma fetch_public_entry:
  assumes "snd (fetch_get_system_info h) = Inr d"
  shows "\<exists>p. snd (get_public_address h) = Inr p \<and> (colored (ansi h) icon_private_ip Green, p) \<in> set d"
  using assms
  by (auto simp: fetch_get_system_info_def snd_bind_Inr dict_literal_def Let_def dict_set_mem)

lemma collect_example_returns: "\<exists>v. snd (collect example_host both_flags) = Inr v"
  using get_private_ip_returns [of example_host] get_public_ip_returns [of example_host]
  by (auto simp: collect_def snd_bind_Inr resolve_os_def getitem_def Let_def both_flags_def
      example_host_def)

lemma fetch_example_returns: "\<exists>d. snd (fetch_get_system_info example_host) = Inr d"
  using get_local_address_returns [of example_host] get_public_address_returns [of example_host]
  by (auto simp: fetch_get_system_info_def snd_bind_Inr getitem_def Let_def coretemp_current_def
      example_host_def)

subsection \<open>The socket of the private-IP lookup\<close>

text \<open>
  Both lookups close the socket on the path where every call succeeds, and only there.
\<close>

lemma socket_ip_closed_iff:
  "Socket_closed \<in> set (fst (socket_ip h)) \<longleftrightarrow>
     socket_new h = None \<and> socket_connect h = None \<and> (\<exists>ip. socket_getsockname h = Inr ip)"
  by (cases "socket_getsockname h")
     (auto simp: socket_ip_def comp_defs split: option.splits)

lemma get_private_ip_left_open_iff:
  "socket_left_open (fst (get_private_ip h)) \<longleftrightarrow>
     socket_new h = None \<and> (socket_connect h \<noteq> None \<or> (\<exists>e. socket_getsockname h = Inl e))"
  by (cases "socket_getsockname h")
     (auto simp: socket_left_open_def get_private_ip_def socket_ip_def comp_defs
        split: option.splits)


subsection \<open>The temperature collector\<close>

text \<open>
  \<^verbatim>\<open>get_cpu_temperature\<close> answers the first sensor of its list that has a reading, and
  \<^verbatim>\<open>None\<close> exactly when no sensor of the list has one.
\<close>

lemma probe_None_iff:
  "probe m ss = None \<longleftrightarrow> (\<forall>s \<in> set ss. map_of m s = None \<or> map_of m s = Some [])"
  by (induction ss) (auto split: option.splits list.splits)

lemma probe_first:
  assumes "\<forall>s \<in> set before. map_of m s = None \<or> map_of m s = Some []"
    and "map_of m s = Some (t # ts)"
  shows "probe m (before @ s # rest) = Some (current t)"
  using assms by (induction before) auto

lemma probe_Some_first:
  assumes "probe m ss = Some x"
  shows "\<exists>before s rest t ts. ss = before @ s # rest \<and>
           (\<forall>s' \<in> set before. map_of m s' = None \<or> map_of m s' = Some []) \<and>
           map_of m s = Some (t # ts) \<and> x = current t"
  using assms
proof (induction ss)
  case Nil
  then show ?case by simp
next
  case (Cons s ss)
  show ?case
  proof (cases "map_of m s = None \<or> map_of m s = Some []")
    case True
    with Cons.prems have "probe m ss = Some x" by auto
    from Cons.IH [OF this] obtain before s' rest t ts where
      "ss = before @ s' # rest"
      "\<forall>s'' \<in> set before. map_of m s'' = None \<or> map_of m s'' = Some []"
      "map_of m s' = Some (t # ts)" "x = current t" by blast
    with True show ?thesis
      by (intro exI [of _ "s # before"] exI [of _ s'] exI [of _ rest] exI [of _ t] exI [of _ ts])
         auto
  next
    case False
    then obtain t ts where "map_of m s = Some (t # ts)"
      by (cases "map_of m s"; cases "the (map_of m s)") auto
    with Cons.prems show ?thesis
      by (intro exI [of _ "[]"] exI [of _ s] exI [of _ ss] exI [of _ t] exI [of _ ts]) auto
  qed
qed

lemma get_cpu_temperature_None_iff:
  "get_cpu_temperature h = None \<longleftrightarrow>
     (case sensors_temperatures h of None \<Rightarrow> True
      | Some m \<Rightarrow> \<forall>s \<in> set sensors. map_of m s = None \<or> map_of m s = Some [])"
  by (simp add: get_cpu_temperature_def probe_None_iff split: option.splits)

text \<open>
  Claim C3. The temperature collector probes the seven sensors in order and answers the
  first reading, or \<^verbatim>\<open>None\<close> without raising; a missing reading never keeps the rest of
  the report from being collected and printed. The rich variant does this (the lemmas
  above, and its run on the AMD host ends with status 0). The minimal variant does not:
  it reads \<^verbatim>\<open>coretemp\<close> only, and on the AMD host, whose sensor is \<^verbatim>\<open>k10temp\<close>, it
  raises \<^verbatim>\<open>KeyError\<close> before anything is printed.
\<close>

theorem fetch_raises_without_coretemp:
  "fetch_main amd_host = ([], Inl (KeyError ''coretemp'')) \<and>
   stdout (fetch_main amd_host) = [] \<and>
   exit_code (fetch_main amd_host) = 1 \<and>
   get_cpu_temperature amd_host = Some 45"
  by (simp add: fetch_defs eval_defs amd_host_def example_host_def stdout_def printed_def exit_code_def
      get_cpu_temperature_def sensors_def)

subsection \<open>The two flags\<close>




subsection \<open>Which entries a display has\<close>




subsection \<open>The printed report\<close>

text \<open>
  The specification gives one order for every report: identity, OS, CPU name, CPU load,
  temperature and battery when available, session manager, uptime, memory, disk, the
  addresses when requested and available, and the colour line. The report of the minimal
  variant is another one: it has no OS entry, no battery entry and no colour line; on the
  online host its dict has nine items and its output ten lines.
\<close>

theorem fetch_report_has_other_entries:
  "keys (the_display (fetch_get_system_info online_host)) =
     [colored True icon_user Blue, colored True icon_cpu Blue, colored True icon_temp Red,
      colored True icon_wm Blue, colored True icon_uptime Yellow, colored True icon_ram Red,
      colored True icon_disk Magenta, colored True icon_private_ip Yellow,
      colored True icon_private_ip Green] \<and>
   length (stdout (fetch_main online_host)) = 10"
  by (simp add: fetch_defs eval_defs online_host_def example_host_def stdout_def printed_def)

text \<open>
  Claim C10, as the code has it. With colouring on, the display of the rich variant is
  the list of entries in the order of the specification, nothing merged or reordered; the
  run prints what the address lookups reported, a blank line, one line
  \<open>"  <label>  <value>"\<close> per entry in that order, and a blank line. The minimal variant
  prints a blank line and one such line per item of its dict, with no trailing blank line.
\<close>

theorem rich_report_in_order:
  assumes "ansi h" and "snd (collect h a) = Inr v"
    and "snd (fetch_get_system_info h') = Inr d'"
  shows "snd (get_system_info h a) = Inr (report_entries True v) \<and>
         stdout (main h a) =
           stdout (collect h a) @ [[]] @ map entry_line (report_entries True v) @ [[]] \<and>
         entry_line (k, Some s) = ''  '' @ k @ ''  '' @ s \<and>
         stdout (fetch_main h') = [] # map entry_line d'"
  using rich_display_entries [OF assms(1,2)] stdout_main [OF assms(2)] stdout_fetch_main [OF assms(3)]
    assms(2)
  by (simp add: get_system_info_simps entry_line_def str_value_def)


theorem rich_report_in_order_witness:
  "keys (the_display (get_system_info example_host no_flags)) =
     [colored True icon_user Green, get_os_logo True ''Arch Linux'', colored True icon_cpu Blue,
      colored True icon_cpu Green, colored True icon_temp Green, colored True icon_battery Green,
      colored True icon_wm Red, colored True icon_uptime Magenta, colored True icon_ram Green,
      colored True icon_disk Green, '' ''] \<and>
   stdout (main example_host no_flags) =
     [[]] @ map entry_line (the_display (get_system_info example_host no_flags)) @ [[]]"
proof -
  have "\<exists>v. snd (collect example_host no_flags) = Inr v \<and>
      keys (report_entries True v) =
        [colored True icon_user Green, get_os_logo True ''Arch Linux'', colored True icon_cpu Blue,
         colored True icon_cpu Green, colored True icon_temp Green, colored True icon_battery Green,
         colored True icon_wm Red, colored True icon_uptime Magenta, colored True icon_ram Green,
         colored True icon_disk Green, '' '']"
    by (simp add: collect_def snd_bind_Inr resolve_os_def getitem_def Let_def no_flags_def
        example_host_def get_cpu_temperature_def sensors_def battery_str_def battery_logo_def
        plugged_def color_cpu_temp_def color_usage_percent_def py_or_def report_entries_def
        optional_entry_def keys_def)
  then obtain v where v: "snd (collect example_host no_flags) = Inr v"
    and k: "keys (report_entries True v) =
        [colored True icon_user Green, get_os_logo True ''Arch Linux'', colored True icon_cpu Blue,
         colored True icon_cpu Green, colored True icon_temp Green, colored True icon_battery Green,
         colored True icon_wm Red, colored True icon_uptime Magenta, colored True icon_ram Green,
         colored True icon_disk Green, '' '']" by blast
  from fetch_online_returns obtain d' where d': "snd (fetch_get_system_info online_host) = Inr d'" ..
  have a: "ansi example_host" by (simp add: example_host_def)
  have quiet: "stdout (collect example_host no_flags) = []"
    by (simp add: stdout_def collect_events no_flags_def split: sum.splits)
  from rich_report_in_order [OF a v d'] k quiet show ?thesis
    by (simp add: the_display_def)
qed

text \<open>
  Without colouring the two CPU labels of the rich variant are the same string and the
  dict keeps one item for both, so the hypothesis on the colour mode is needed: the
  display of the example host has eleven items with colouring and ten without.
\<close>

lemma rich_display_without_colour:
  "length (the_display (get_system_info example_host no_flags)) = 11 \<and>
   length (the_display (get_system_info (example_host\<lparr>ansi := False\<rparr>) no_flags)) = 10"
  by (simp add: the_display_def get_system_info_simps collect_def snd_bind resolve_os_def
      getitem_def Let_def no_flags_def example_host_def get_cpu_temperature_def sensors_def
      battery_str_def battery_logo_def plugged_def color_cpu_temp_def color_usage_percent_def
      py_or_def build_display_def dict_literal_def os_logo_neq label_icons_def)

subsection \<open>The OS entry\<close>

text \<open>
  The specification wants the OS entry in the report of either variant. The minimal
  variant has none: on the online host, where the OS name resolves to \<^verbatim>\<open>Arch Linux\<close>,
  its run ends with status 0 and no item of its dict has the logo as its label.
\<close>

theorem fetch_report_has_no_os_entry:
  "snd (resolve_os online_host) = Inr (''Arch Linux'', get_os_logo True ''Arch Linux'') \<and>
   exit_code (fetch_main online_host) = 0 \<and>
   get_os_logo True ''Arch Linux'' \<notin> set (keys (the_display (fetch_get_system_info online_host)))"
  by (simp add: fetch_defs eval_defs online_host_def example_host_def exit_code_def resolve_os_def
      os_logo_neq label_icons_def)

text \<open>
  Claim C9, as the code has it. The logo lookup of the rich variant is an exact,
  case-sensitive match against the table: the dict is the 43 rows as they are written,
  a name that is a key gets the logo of its row, and a name that is not a key gets the
  fallback glyph in yellow. Whenever the rich variant returns a display, its second item
  is the OS entry: the logo and the resolved name; the logo is looked up under the
  resolved name, except on Darwin and Windows where it is looked up under \<^verbatim>\<open>macOS\<close> and
  \<^verbatim>\<open>Windows\<close>. Both colour modes.
\<close>

theorem os_entry_rich:
  assumes "snd (get_system_info h a) = Inr d"
  shows "(\<exists>name. snd (resolve_os h) = Inr (name, get_os_logo (ansi h)
              (if system h = ''Darwin'' then ''macOS''
               else if system h = ''Windows'' then ''Windows'' else name)) \<and>
            1 < length d \<and>
            d ! 1 = (get_os_logo (ansi h)
              (if system h = ''Darwin'' then ''macOS''
               else if system h = ''Windows'' then ''Windows'' else name), Some name)) \<and>
         (n \<notin> set (keys (logo_dict b)) \<longrightarrow> get_os_logo b n = colored b icon_fallback Yellow) \<and>
         get_os_logo b ''Arch Linux'' = colored b [CHR 0xF3, CHR 0xB0, CHR 0xA3, CHR 0x87] Blue \<and>
         get_os_logo b ''arch linux'' = colored b icon_fallback Yellow \<and>
         (map_of (logo_dict b) n = Some l \<longrightarrow> get_os_logo b n = l) \<and>
         (map_of (logo_dict b) n = None \<longrightarrow> get_os_logo b n = colored b icon_fallback Yellow) \<and>
         logo_dict b = logo_table b \<and>
         get_os_logo b ''macOS'' = colored b [CHR 0xEE, CHR 0x9C, CHR 0x91] White \<and>
         get_os_logo b ''Windows'' = colored b [CHR 0xEE, CHR 0x9C, CHR 0x8F] Blue"
proof -
  from assms obtain v where v: "snd (collect h a) = Inr v" and d: "d = build_display (ansi h) v"
    by (auto simp: get_system_info_simps split: sum.splits)
  let ?key = "if system h = ''Darwin'' then ''macOS''
               else if system h = ''Windows'' then ''Windows'' else v_os_name v"
  have os: "v_os_logo v = get_os_logo (ansi h) ?key"
    using resolve_os_key [OF collect_os [OF v]] .
  have bat: "v_battery_logo v = icon_plugged \<or> v_battery_logo v = icon_battery"
    using collect_Inr(3) [OF v] battery_logo_cases [of h] by simp
  have "1 < length d \<and> d ! 1 = (v_os_logo v, Some (v_os_name v))"
    unfolding d
  proof (rule build_display_os_entry [OF _ _ bat])
    show "v_os_logo v \<noteq> '' ''" unfolding os by (rule os_logo_neq(4))
    show "v_os_logo v \<noteq> colored (ansi h) k c" if "k \<in> set label_icons" for k c
      unfolding os using that by (rule os_logo_neq(2))
  qed
  with collect_os [OF v] os have
    "snd (resolve_os h) = Inr (v_os_name v, get_os_logo (ansi h) ?key) \<and> 1 < length d \<and>
     d ! 1 = (get_os_logo (ansi h) ?key, Some (v_os_name v))" by simp
  then show ?thesis
    using get_os_logo_fallback [of n b] get_os_logo_examples(1,2,4,5) [of b]
      get_os_logo_lookup [of b n] logo_dict_eq_table [of b] by blast
qed

theorem os_entry_rich_witness:
  "1 < length (the_display (get_system_info online_host both_flags)) \<and>
   the_display (get_system_info online_host both_flags) ! 1 =
     (get_os_logo True ''Arch Linux'', Some ''Arch Linux'') \<and>
   get_os_logo True ''Haiku'' = colored True icon_fallback Yellow"
proof -
  from collect_online_returns
  have 1: "snd (get_system_info online_host both_flags) =
      Inr (the_display (get_system_info online_host both_flags))"
    by (auto simp: get_system_info_simps the_display_def)
  have os: "snd (resolve_os online_host) = Inr (''Arch Linux'', get_os_logo True ''Arch Linux'')"
    "system online_host = ''Linux''" "ansi online_host"
    by (simp_all add: resolve_os_def comp_defs getitem_def online_host_def example_host_def)
  have k: "''Haiku'' \<notin> set (keys (logo_dict True))"
    unfolding logo_dict_def dict_literal_def keys_dict_update by (simp add: logo_table_def)
  from os_entry_rich [OF 1, where n = "''Haiku''" and b = True] os k show ?thesis by auto
qed

subsection \<open>A failed public-IP lookup\<close>

text \<open>
  The specification lists a non-2xx response among the failures that make the public-IP
  lookup answer \<^verbatim>\<open>None\<close>. The collectors call \<^verbatim>\<open>raise_for_status\<close>, which rejects
  the codes 400 to 599 only: when the service answers 300 with the usual body, both
  collectors return the address of the body.
\<close>

theorem redirect_answer_is_used:
  "http redirect_host =
     Response 300 ''Multiple Choices'' (Object [(''ip'', Some ''203.0.113.9'')]) \<and>
   get_public_ip redirect_host = ([Http_get ipify_url], Inr (Some ''203.0.113.9'')) \<and>
   get_public_address redirect_host = ([Http_get ipify_url], Inr (Some ''203.0.113.9''))"
  by (simp add: eval_defs redirect_host_def example_host_def)

text \<open>
  Claim C5, as the code has it. When the request raises, the status is between 400 and
  599, or the body is not a JSON object with the field \<^verbatim>\<open>ip\<close>, both public-IP
  collectors return \<^verbatim>\<open>None\<close> and do not raise. The rich variant then has no public-IP
  entry; the minimal variant has it with the value \<^verbatim>\<open>None\<close> and prints it so. Whatever
  the outcome of the request, every other entry of the display is the same and the exit
  status of the run is the same: the failure of the lookup changes that entry only.
\<close>

theorem public_ip_failure_is_local:
  assumes "http_fails (http h)"
  shows "snd (get_public_ip h) = Inr None \<and>
         snd (get_public_address h) = Inr None \<and>
         colored (ansi h) icon_public_ip Green \<notin> set (keys (the_display (get_system_info h a))) \<and>
         (snd (fetch_get_system_info h) = Inr d \<longrightarrow>
            (colored (ansi h) icon_private_ip Green, None) \<in> set d \<and>
            ''  '' @ colored (ansi h) icon_private_ip Green @ ''  None'' \<in> set (stdout (fetch_main h))) \<and>
         filter (\<lambda>kv. fst kv \<noteq> colored (ansi h) icon_public_ip Green)
             (the_display (get_system_info h a)) =
           filter (\<lambda>kv. fst kv \<noteq> colored (ansi h) icon_public_ip Green)
             (the_display (get_system_info (h\<lparr>http := out\<rparr>) a)) \<and>
         filter (\<lambda>kv. fst kv \<noteq> colored (ansi h) icon_private_ip Green)
             (the_display (fetch_get_system_info h)) =
           filter (\<lambda>kv. fst kv \<noteq> colored (ansi h) icon_private_ip Green)
             (the_display (fetch_get_system_info (h\<lparr>http := out\<rparr>))) \<and>
         exit_code (main h a) = exit_code (main (h\<lparr>http := out\<rparr>) a) \<and>
         exit_code (fetch_main h) = exit_code (fetch_main (h\<lparr>http := out\<rparr>))"
proof -
  note none = public_ip_None [OF assms]
  have rich_absent:
    "colored (ansi h) icon_public_ip Green \<notin> set (keys (the_display (get_system_info h a)))"
  proof (cases "snd (collect h a)")
    case (Inl e)
    then show ?thesis by (simp add: the_display_get_system_info)
  next
    case (Inr v)
    from collect_Inr(7) [OF Inr] none(1) have "v_public_ip v = None"
      by (simp split: if_splits)
    with rich_keys(2) [OF Inr] Inr show ?thesis
      by (simp add: the_display_get_system_info)
  qed
  have fetch_none: "(colored (ansi h) icon_private_ip Green, None) \<in> set d \<and>
      ''  '' @ colored (ansi h) icon_private_ip Green @ ''  None'' \<in> set (stdout (fetch_main h))"
    if d: "snd (fetch_get_system_info h) = Inr d"
  proof -
    from fetch_public_entry [OF d] none(2)
    have m: "(colored (ansi h) icon_private_ip Green, None) \<in> set d" by auto
    then have "entry_line (colored (ansi h) icon_private_ip Green, None) \<in> entry_line ` set d"
      by (rule imageI)
    with m show ?thesis
      by (simp add: stdout_fetch_main [OF d] entry_line_def str_value_def)
  qed
  from collect_http [where h = h and out = out and a = a] obtain p where
    p: "snd (collect (h\<lparr>http := out\<rparr>) a) = map_sum id (\<lambda>v. v\<lparr>v_public_ip := p\<rparr>) (snd (collect h a))" ..
  have rich_frame: "filter (\<lambda>kv. fst kv \<noteq> colored (ansi h) icon_public_ip Green)
             (the_display (get_system_info h a)) =
           filter (\<lambda>kv. fst kv \<noteq> colored (ansi h) icon_public_ip Green)
             (the_display (get_system_info (h\<lparr>http := out\<rparr>) a))"
    by (cases "snd (collect h a)")
       (simp_all add: the_display_get_system_info p build_display_public_frame)
  have rich_exit: "exit_code (main h a) = exit_code (main (h\<lparr>http := out\<rparr>) a)"
    by (cases "snd (collect h a)") (simp_all add: exit_code_main p)
  have fetch_exit: "exit_code (fetch_main h) = exit_code (fetch_main (h\<lparr>http := out\<rparr>))"
    using fetch_http(2) [where h = h and out = out]
    by (cases "snd (fetch_get_system_info h)"; cases "snd (fetch_get_system_info (h\<lparr>http := out\<rparr>))")
       (simp_all add: exit_code_main)
  from none rich_absent fetch_none rich_frame fetch_http(1) [where h = h and out = out] rich_exit fetch_exit
  show ?thesis by simp
qed

theorem public_ip_failure_is_local_witness:
  "snd (get_public_ip example_host) = Inr None \<and>
   colored True icon_public_ip Green \<notin> set (keys (the_display (get_system_info example_host both_flags))) \<and>
   (colored True icon_private_ip Green, None) \<in> set (the_display (fetch_get_system_info example_host)) \<and>
   exit_code (main example_host both_flags) = 0 \<and>
   exit_code (fetch_main example_host) = 0"
proof -
  have f: "http_fails (http example_host)" and a: "ansi example_host"
    by (simp_all add: http_fails_def example_host_def)
  from fetch_example_returns
  have d: "snd (fetch_get_system_info example_host) =
      Inr (the_display (fetch_get_system_info example_host))"
    by (auto simp: the_display_def)
  have e: "exit_code (main example_host both_flags) = 0" "exit_code (fetch_main example_host) = 0"
    using collect_example_returns fetch_example_returns by (auto simp: exit_code_main)
  from public_ip_failure_is_local [OF f, of both_flags "the_display (fetch_get_system_info example_host)"]
    d a e show ?thesis by simp
qed

subsection \<open>Classifiers\<close>

text \<open>
  Claim C6. For every usage percentage \<open>p\<close> the usage classifier answers green exactly
  when \<open>p < 60\<close>, yellow exactly when \<open>60 \<le> p < 80\<close> and red exactly when \<open>p \<ge> 80\<close>;
  the boundaries 60 and 80 fall in the upper class.
\<close>

theorem color_usage_percent_classes:
  "(color_usage_percent p = Green \<longleftrightarrow> p < 60) \<and>
   (color_usage_percent p = Yellow \<longleftrightarrow> 60 \<le> p \<and> p < 80) \<and>
   (color_usage_percent p = Red \<longleftrightarrow> 80 \<le> p) \<and>
   color_usage_percent 60 = Yellow \<and> color_usage_percent 80 = Red"
  by (simp add: color_usage_percent_def)

text \<open>The rich variant colours the CPU load, the memory and the disk with this classifier.\<close>

lemma usage_colours:
  assumes "snd (collect h a) = Inr v"
  shows "v_cpu_usage_color v = color_usage_percent (cpu_percent h)"
    and "v_ram_usage_color v = color_usage_percent (usage_percent (virtual_memory h))"
    and "v_disk_usage_color v = color_usage_percent (usage_percent (disk_usage h))"
  using assms
  by (auto simp: collect_def snd_bind_Inr Let_def split: prod.splits)

text \<open>
  Claim C7. For every temperature \<open>t\<close> the temperature classifier answers green exactly
  when \<open>t < 60\<close>, yellow exactly when \<open>60 \<le> t < 70\<close> and red exactly when \<open>t \<ge> 70\<close>;
  60 and 70 fall in the upper class, and the breakpoints differ from those of the usage
  classifier: at 75 the two functions disagree.
\<close>

theorem color_cpu_temp_classes:
  "(color_cpu_temp t = Green \<longleftrightarrow> t < 60) \<and>
   (color_cpu_temp t = Yellow \<longleftrightarrow> 60 \<le> t \<and> t < 70) \<and>
   (color_cpu_temp t = Red \<longleftrightarrow> 70 \<le> t) \<and>
   color_cpu_temp 60 = Yellow \<and> color_cpu_temp 70 = Red \<and>
   color_cpu_temp 75 = Red \<and> color_usage_percent 75 = Yellow"
  by (simp add: color_cpu_temp_def color_usage_percent_def)

subsection \<open>Uptime\<close>













lemma digit_val_digit_char: "d < 10 \<Longrightarrow> digit_val (digit_char d) = d"
proof -
  assume "d < 10"
  then have "d \<in> {0,1,2,3,4,5,6,7,8,9}" by auto
  then show ?thesis by (auto simp: digit_val_def digit_char_def)
qed

lemma read_nat_snoc: "read_nat (s @ [c]) = 10 * read_nat s + digit_val c"
  by (simp add: read_nat_def)

lemma read_nat_str_nat: "read_nat (str_nat n) = n"
proof (induction n rule: str_nat.induct)
  case (1 n)
  show ?case
  proof (cases "n < 10")
    case True
    then show ?thesis
      using read_nat_snoc [of "[]" "digit_char n"]
      by (simp add: str_nat.simps [of n] digit_val_digit_char read_nat_def)
  next
    case False
    with 1 show ?thesis
      by (simp add: str_nat.simps [of n] read_nat_snoc digit_val_digit_char)
  qed
qed

lemma str_nat_digits: "c \<in> set (str_nat n) \<Longrightarrow> c \<in> set ''0123456789''"
proof (induction n rule: str_nat.induct)
  case (1 n)
  have dc: "\<And>d. d < 10 \<Longrightarrow> digit_char d \<in> set ''0123456789''"
    unfolding digit_char_def by (rule nth_mem) simp
  show ?case
  proof (cases "n < 10")
    case True
    with 1(2) dc [of n] show ?thesis by (simp add: str_nat.simps [of n])
  next
    case False
    with 1 dc [of "n mod 10"] show ?thesis
      by (auto simp: str_nat.simps [of n])
  qed
qed

lemma str_nat_nonempty: "str_nat n \<noteq> []"
  by (subst str_nat.simps) simp

lemma read_int_str_int: "read_int (str_int i) = i"
proof (cases "i < 0")
  case True
  then show ?thesis by (simp add: read_int_def str_int_def read_nat_str_nat)
next
  case False
  obtain c cs where s: "str_nat (nat i) = c # cs"
    using str_nat_nonempty [of "nat i"] by (cases "str_nat (nat i)") auto
  have "c \<in> set (str_nat (nat i))" by (simp add: s)
  then have "c \<noteq> CHR ''-''" using str_nat_digits by fastforce
  with False s show ?thesis
    using read_nat_str_nat [of "nat i"] by (simp add: read_int_def str_int_def)
qed





end
